theory Spec2Isabelle
  imports Complex_Main
begin

section \<open>JavaScript Map objects\<close>

text \<open>
  A JavaScript \<^verbatim>\<open>Map\<close> iterates in insertion order, \<^verbatim>\<open>set\<close> on a present key replaces
  the value where it stands and on an absent key appends, \<^verbatim>\<open>delete\<close> drops the entry.
  The model is an association list with exactly these operations. Values that the source
  mutates through a reference obtained from the map (\<^verbatim>\<open>table.isOccupied = true\<close>) are
  written back under their key with \<open>map_set\<close>, which leaves the position unchanged.
\<close>

fun map_get :: "('k \<times> 'v) list \<Rightarrow> 'k \<Rightarrow> 'v option" where
  "map_get [] k = None"
| "map_get ((k', v) # m) k = (if k' = k then Some v else map_get m k)"

fun map_set :: "'k \<Rightarrow> 'v \<Rightarrow> ('k \<times> 'v) list \<Rightarrow> ('k \<times> 'v) list" where
  "map_set k v [] = [(k, v)]"
| "map_set k v ((k', v') # m) = (if k' = k then (k, v) # m else (k', v') # map_set k v m)"

fun map_delete :: "'k \<Rightarrow> ('k \<times> 'v) list \<Rightarrow> ('k \<times> 'v) list" where
  "map_delete k [] = []"
| "map_delete k ((k', v') # m) = (if k' = k then m else (k', v') # map_delete k m)"

text \<open>
  Mutation of the first value, in iteration order, that a scan has selected: the object is
  changed where it is stored.
\<close>

fun updateFirst :: "('v \<Rightarrow> bool) \<Rightarrow> ('v \<Rightarrow> 'v) \<Rightarrow> ('k \<times> 'v) list \<Rightarrow> ('k \<times> 'v) list" where
  "updateFirst P f [] = []"
| "updateFirst P f ((k, v) # m) = (if P v then (k, f v) # m else (k, v) # updateFirst P f m)"

definition map_has :: "('k \<times> 'v) list \<Rightarrow> 'k \<Rightarrow> bool" where
  "map_has m k = (map_get m k \<noteq> None)"

definition map_values :: "('k \<times> 'v) list \<Rightarrow> 'v list" where
  "map_values m = map snd m"

definition map_size :: "('k \<times> 'v) list \<Rightarrow> nat" where
  "map_size m = length m"

section \<open>Property reads on object literals\<close>

text \<open>
  The two dish tables of the program are object literals with numeric entries, each read
  once as \<^verbatim>\<open>table[dish] || fallback\<close>. A property read on an object literal finds the
  entries of the literal and, under any other name, what every object inherits from
  \<^verbatim>\<open>Object.prototype\<close>: eleven functions and, under \<^verbatim>\<open>__proto__\<close>, the prototype object
  itself. A name found in neither place reads as \<^verbatim>\<open>undefined\<close>. So the value read is a
  number, \<^verbatim>\<open>undefined\<close>, or an inherited function or object, which is recorded here by
  the name it was read under. \<^verbatim>\<open>||\<close> replaces \<^verbatim>\<open>undefined\<close> and a zero by the fallback; a
  function or an object is truthy and is what the expression returns.
\<close>

definition objectPrototypeNames :: "string list" where
  "objectPrototypeNames =
     [''constructor'', ''__defineGetter__'', ''__defineSetter__'', ''hasOwnProperty'',
      ''__lookupGetter__'', ''__lookupSetter__'', ''isPrototypeOf'', ''propertyIsEnumerable'',
      ''toString'', ''valueOf'', ''__proto__'', ''toLocaleString'']"

datatype js_value = Number int | Inherited string

definition read_or :: "(string \<times> int) list \<Rightarrow> string \<Rightarrow> int \<Rightarrow> js_value" where
  "read_or table name fallback =
     (case map_get table name of
        Some v \<Rightarrow> if v \<noteq> 0 then Number v else Number fallback
      | None \<Rightarrow>
          if name \<in> set objectPrototypeNames then Inherited name else Number fallback)"

text \<open>
  Arithmetic with such a value as the left operand. An operand that is a function or an
  object is first converted to a primitive, which is a string (the source text of the
  function, or \<^verbatim>\<open>[object Object]\<close>). \<^verbatim>\<open>*\<close> reads that string as a number, finds none
  and answers \<^verbatim>\<open>NaN\<close>, which every later sum keeps: \<open>js_times\<close> is \<^verbatim>\<open>value * n\<close>
  and \<open>js_plus\<close> is \<^verbatim>\<open>+\<close> on two numbers of which either may be \<^verbatim>\<open>NaN\<close>.
\<close>

datatype js_number = Finite int | NotANumber

fun js_times :: "js_value \<Rightarrow> int \<Rightarrow> js_number" where
  "js_times (Number a) b = Finite (a * b)"
| "js_times (Inherited name) b = NotANumber"

fun js_plus :: "js_number \<Rightarrow> js_number \<Rightarrow> js_number" where
  "js_plus (Finite a) (Finite b) = Finite (a + b)"
| "js_plus NotANumber b = NotANumber"
| "js_plus (Finite a) NotANumber = NotANumber"

text \<open>
  \<^verbatim>\<open>+\<close> adds two numbers and, when either operand is a string after the conversion,
  puts the printed operands together. \<open>js_add\<close> is \<^verbatim>\<open>value + n\<close>, a number (\<open>Points\<close>)
  or a string (\<open>Text\<close>), and \<open>js_append\<close> is \<^verbatim>\<open>+\<close> on two such results. The text of a
  built-in function is left to the engine, so the model records that the result is a
  string and not which.
\<close>

datatype js_sum = Points int | Text

fun js_add :: "js_value \<Rightarrow> int \<Rightarrow> js_sum" where
  "js_add (Number a) b = Points (a + b)"
| "js_add (Inherited name) b = Text"

fun js_append :: "js_sum \<Rightarrow> js_sum \<Rightarrow> js_sum" where
  "js_append (Points a) (Points b) = Points (a + b)"
| "js_append Text b = Text"
| "js_append (Points a) Text = Text"

section \<open>The local game database (src/lib/game-database.ts)\<close>

text \<open>
  JavaScript numbers that the database handles (ids, capacities, quantities, prices,
  minutes, millisecond clocks) are modelled as unbounded integers. The clock
  \<^verbatim>\<open>Date.now()\<close> and the generated order id are inputs of the operations that read them.
  Listeners registered with \<^verbatim>\<open>on\<close> are opaque callbacks: the model records every
  \<^verbatim>\<open>emit\<close> in the field \<open>emitted\<close>, in order.
\<close>

record TableData =
  t_id :: int
  t_x :: int
  t_z :: int
  t_capacity :: int
  t_isOccupied :: bool
  t_reservedBy :: "string option"
  t_reservedAt :: "int option"
  t_currentOrder :: "string option"

datatype category = Food | Beverage

record MenuItem =
  m_id :: string
  m_name :: string
  m_price :: int
  m_available :: int
  m_description :: string
  m_category :: category
  m_cookingTime :: int

datatype order_status = Pending | Cooking | Ready | Served | Cancelled

record OrderItem =
  i_name :: string
  i_quantity :: int
  i_price :: int

record ItemQuantity =
  q_name :: string
  q_quantity :: int

record OrderData =
  o_id :: string
  o_tableId :: int
  o_items :: "OrderItem list"
  o_totalPrice :: int
  o_status :: order_status
  o_orderTime :: int
  o_estimatedTime :: int
  o_assignedChef :: "string option"

datatype db_event =
    TableReserved TableData string
  | TableReleased TableData
  | InventoryUpdated MenuItem int
  | OrderCreated OrderData
  | OrderStatusUpdated OrderData order_status
  | GameReset

record GameDatabase =
  tables :: "(int \<times> TableData) list"
  menuItems :: "(string \<times> MenuItem) list"
  orders :: "(string \<times> OrderData) list"
  emitted :: "db_event list"

definition emit :: "db_event \<Rightarrow> GameDatabase \<Rightarrow> GameDatabase" where
  "emit e db = db\<lparr>emitted := emitted db @ [e]\<rparr>"

definition tablePositions :: "(int \<times> int \<times> int \<times> int) list" where
  "tablePositions =
     [(1, -6, -6, 4), (2, 6, -6, 4), (3, -6, -1, 2), (4, 6, -1, 2), (5, -6, 4, 6), (6, 6, 4, 6)]"

definition newTable :: "int \<times> int \<times> int \<times> int \<Rightarrow> TableData" where
  "newTable p = (case p of (i, x, z, c) \<Rightarrow>
     \<lparr>t_id = i, t_x = x, t_z = z, t_capacity = c, t_isOccupied = False,
      t_reservedBy = None, t_reservedAt = None, t_currentOrder = None\<rparr>)"

definition initializeTables :: "(int \<times> TableData) list \<Rightarrow> (int \<times> TableData) list" where
  "initializeTables ts = foldl (\<lambda>m p. map_set (fst p) (newTable p) m) ts tablePositions"

definition menu_list :: "MenuItem list" where
  "menu_list =
     [\<lparr>m_id = ''burger'', m_name = ''Burger'', m_price = 15, m_available = 5,
       m_description = ''Juicy beef patty with fresh vegetables'', m_category = Food,
       m_cookingTime = 8\<rparr>,
      \<lparr>m_id = ''pizza'', m_name = ''Pizza'', m_price = 18, m_available = 5,
       m_description = ''Classic margherita with mozzarella'', m_category = Food,
       m_cookingTime = 12\<rparr>,
      \<lparr>m_id = ''cold_coffee'', m_name = ''Cold Coffee'', m_price = 8, m_available = 10,
       m_description = ''Refreshing iced coffee drink'', m_category = Beverage,
       m_cookingTime = 3\<rparr>]"

definition initializeMenu :: "(string \<times> MenuItem) list \<Rightarrow> (string \<times> MenuItem) list" where
  "initializeMenu ms = foldl (\<lambda>m item. map_set (m_id item) item m) ms menu_list"

text \<open>The constructor: \<^verbatim>\<open>new GameDatabase()\<close> (the waiter record plays no part below).\<close>

definition newGameDatabase :: GameDatabase where
  "newGameDatabase =
     \<lparr>tables = initializeTables [], menuItems = initializeMenu [], orders = [], emitted = []\<rparr>"

definition getTables :: "GameDatabase \<Rightarrow> TableData list" where
  "getTables db = map_values (tables db)"

definition findAvailableTable :: "GameDatabase \<Rightarrow> int \<Rightarrow> TableData option" where
  "findAvailableTable db requiredCapacity =
     List.find (\<lambda>table. \<not> t_isOccupied table \<and> t_capacity table \<ge> requiredCapacity)
       (map_values (tables db))"

definition reserveTable :: "GameDatabase \<Rightarrow> int \<Rightarrow> string \<Rightarrow> int \<Rightarrow> GameDatabase \<times> bool" where
  "reserveTable db tableId reservedBy now =
     (case map_get (tables db) tableId of
        None \<Rightarrow> (db, False)
      | Some table \<Rightarrow>
          if \<not> t_isOccupied table then
            let table' = table\<lparr>t_isOccupied := True, t_reservedBy := Some reservedBy,
                               t_reservedAt := Some now\<rparr>
            in (emit (TableReserved table' reservedBy)
                  (db\<lparr>tables := map_set tableId table' (tables db)\<rparr>), True)
          else (db, False))"

definition releaseTable :: "GameDatabase \<Rightarrow> int \<Rightarrow> GameDatabase \<times> bool" where
  "releaseTable db tableId =
     (case map_get (tables db) tableId of
        None \<Rightarrow> (db, False)
      | Some table \<Rightarrow>
          if t_isOccupied table then
            let table' = table\<lparr>t_isOccupied := False, t_reservedBy := None,
                               t_reservedAt := None, t_currentOrder := None\<rparr>
            in (emit (TableReleased table')
                  (db\<lparr>tables := map_set tableId table' (tables db)\<rparr>), True)
          else (db, False))"

text \<open>
  \<^verbatim>\<open>Array.from(this.menuItems.values()).find(m => m.name === name)\<close>: the first menu
  item, in insertion order, with the given display name.
\<close>

definition findMenuItem :: "GameDatabase \<Rightarrow> string \<Rightarrow> MenuItem option" where
  "findMenuItem db nm = List.find (\<lambda>m. m_name m = nm) (map_values (menuItems db))"

fun checkAvailability :: "GameDatabase \<Rightarrow> ItemQuantity list \<Rightarrow> bool" where
  "checkAvailability db [] = True"
| "checkAvailability db (item # items) =
     (case findMenuItem db (q_name item) of
        None \<Rightarrow> False
      | Some menuItem \<Rightarrow>
          if m_available menuItem < q_quantity item then False
          else checkAvailability db items)"

text \<open>
  One turn of the decrementing loop of \<^verbatim>\<open>updateInventory\<close>: the found object is
  mutated in place, so the entry that holds it keeps its key and position.
\<close>

definition decrementFirst :: "string \<Rightarrow> int \<Rightarrow> (string \<times> MenuItem) list \<Rightarrow> (string \<times> MenuItem) list" where
  "decrementFirst nm q ms =
     updateFirst (\<lambda>m. m_name m = nm) (\<lambda>m. m\<lparr>m_available := m_available m - q\<rparr>) ms"

definition decrementItem :: "GameDatabase \<Rightarrow> ItemQuantity \<Rightarrow> GameDatabase" where
  "decrementItem db item =
     (case findMenuItem db (q_name item) of
        None \<Rightarrow> db
      | Some menuItem \<Rightarrow>
          emit (InventoryUpdated (menuItem\<lparr>m_available := m_available menuItem - q_quantity item\<rparr>)
                  (q_quantity item))
            (db\<lparr>menuItems := decrementFirst (q_name item) (q_quantity item) (menuItems db)\<rparr>))"

definition updateInventory :: "GameDatabase \<Rightarrow> ItemQuantity list \<Rightarrow> GameDatabase \<times> bool" where
  "updateInventory db items =
     (if \<not> checkAvailability db items then (db, False)
      else (foldl decrementItem db items, True))"

text \<open>
  \<^verbatim>\<open>createOrder\<close>: \<open>orderId\<close> stands for the generated
  \<^verbatim>\<open>order_${Date.now()}_${random}\<close>, \<open>now\<close> for the clock read for \<^verbatim>\<open>orderTime\<close>.
  \<^verbatim>\<open>reduce\<close> with an initial value is a left fold.
\<close>

definition createOrder ::
  "GameDatabase \<Rightarrow> int \<Rightarrow> OrderItem list \<Rightarrow> string \<Rightarrow> int \<Rightarrow> GameDatabase \<times> OrderData option" where
  "createOrder db tableId items orderId now =
     (case map_get (tables db) tableId of
        None \<Rightarrow> (db, None)
      | Some table \<Rightarrow>
          if t_isOccupied table = False then (db, None)
          else
            let totalPrice = foldl (\<lambda>sum item. sum + i_price item) 0 items;
                estimatedTime = foldl (\<lambda>sum item. sum +
                    (case findMenuItem db (i_name item) of
                       Some menuItem \<Rightarrow> m_cookingTime menuItem * i_quantity item
                     | None \<Rightarrow> 0)) 0 items;
                order = \<lparr>o_id = orderId, o_tableId = tableId, o_items = items,
                         o_totalPrice = totalPrice, o_status = Pending, o_orderTime = now,
                         o_estimatedTime = estimatedTime, o_assignedChef = None\<rparr>
            in (emit (OrderCreated order)
                  (db\<lparr>orders := map_set orderId order (orders db),
                      tables := map_set tableId (table\<lparr>t_currentOrder := Some orderId\<rparr>) (tables db)\<rparr>),
                Some order))"

definition db_updateOrderStatus ::
  "GameDatabase \<Rightarrow> string \<Rightarrow> order_status \<Rightarrow> string option \<Rightarrow> GameDatabase \<times> bool" where
  "db_updateOrderStatus db orderId status assignedChef =
     (case map_get (orders db) orderId of
        None \<Rightarrow> (db, False)
      | Some order \<Rightarrow>
          let order1 = order\<lparr>o_status := status\<rparr>;
              order2 = (case assignedChef of
                          None \<Rightarrow> order1
                        | Some c \<Rightarrow> if c = [] then order1 else order1\<lparr>o_assignedChef := Some c\<rparr>)
          in (emit (OrderStatusUpdated order2 status)
                (db\<lparr>orders := map_set orderId order2 (orders db)\<rparr>), True))"

section \<open>The relay protocol handler (src/lib/socket-server.ts)\<close>

text \<open>
  Printing of integers, for the template strings that build order ids and dish labels
  (equal to JavaScript's number printing on integers below \<open>10\<^sup>2\<^sup>1\<close> in magnitude), and
  \<^verbatim>\<open>Array.prototype.join\<close>.
\<close>

definition digit :: "nat \<Rightarrow> char" where
  "digit n = ''0123456789'' ! n"

function show_nat :: "nat \<Rightarrow> string" where
  "show_nat n = (if n < 10 then [digit n] else show_nat (n div 10) @ [digit (n mod 10)])"
  by pat_completeness auto
termination
  by (relation "measure id") auto

declare show_nat.simps [simp del]

definition show_int :: "int \<Rightarrow> string" where
  "show_int i = (if i < 0 then CHR ''-'' # show_nat (nat (- i)) else show_nat (nat i))"

fun join :: "string \<Rightarrow> string list \<Rightarrow> string" where
  "join sep [] = []"
| "join sep [x] = x"
| "join sep (x # y # zs) = x @ sep @ join sep (y # zs)"

datatype role = Visitor | Chef

type_synonym position = "real \<times> real \<times> real"
type_synonym rotation = "real \<times> real"

record PlayerData =
  p_id :: string
  p_role :: role
  p_position :: position
  p_rotation :: rotation
  p_username :: string

datatype room_order_status = StatusPending | StatusCooking | StatusReady | StatusServed

record RoomOrder =
  ro_id :: string
  ro_dish :: string
  ro_price :: int
  ro_tableId :: int
  ro_orderTime :: int
  ro_status :: room_order_status
  ro_estimatedTime :: js_number

record RoomTable =
  rt_id :: int
  rt_x :: int
  rt_z :: int
  rt_capacity :: int
  rt_isOccupied :: bool
  rt_reservedBy :: "string option"

record RoomData =
  r_id :: string
  r_players :: "(string \<times> PlayerData) list"
  r_orders :: "(string \<times> RoomOrder) list"
  r_tables :: "(int \<times> RoomTable) list"
  r_createdAt :: int

record DishLine =
  l_dish :: string
  l_quantity :: int
  l_price :: int

text \<open>
  What a handler sends: \<open>Emit sid m\<close> is \<^verbatim>\<open>socket.emit\<close> on the connection \<open>sid\<close>,
  \<open>EmitTo sid r m\<close> is \<^verbatim>\<open>socket.to(r).emit\<close>, which reaches the members of the channel
  \<open>r\<close> other than \<open>sid\<close> (a room id, or a connection id for a single peer). Which
  connections belong to a channel (\<^verbatim>\<open>socket.join\<close>) is kept by the transport, not by
  the room store.
\<close>

datatype message =
    RoomFull
  | RoleTaken
  | RoomJoined string PlayerData "PlayerData list"
  | PlayerJoined PlayerData
  | PlayerMoved string position rotation
  | PlayerActionMsg string string string
  | TableAssigned int "int \<times> int"
  | TableBooked int string
  | TableUnavailable string
  | OrderReceived string string int js_number "DishLine list"
  | OrderPlaced string
  | OrderStatusChanged string room_order_status string
  | RatingSubmitted string int
  | ChefReady string
  | VisitorSeated string int
  | MenuRequest string int
  | OrderReady string string bool int
  | SessionEnded string "PlayerData list" "RoomOrder list" int
  | PlayerLeft string

datatype emission = Emit string message | EmitTo string string message

type_synonym rooms = "(string \<times> RoomData) list"

definition newRoomTable :: "int \<times> int \<times> int \<times> int \<Rightarrow> RoomTable" where
  "newRoomTable p = (case p of (i, x, z, c) \<Rightarrow>
     \<lparr>rt_id = i, rt_x = x, rt_z = z, rt_capacity = c, rt_isOccupied = False,
      rt_reservedBy = None\<rparr>)"

definition initializeRoomTables :: "RoomData \<Rightarrow> RoomData" where
  "initializeRoomTables room =
     room\<lparr>r_tables := foldl (\<lambda>m p. map_set (fst p) (newRoomTable p) m) (r_tables room)
                          tablePositions\<rparr>"

definition cookingTimes :: "(string \<times> int) list" where
  "cookingTimes =
     [(''Pasta Carbonara'', 8), (''Grilled Steak'', 10), (''Caesar Salad'', 5),
      (''Tomato Soup'', 12), (''Gourmet Burger'', 15), (''Margherita Pizza'', 18)]"

text \<open>
  \<^verbatim>\<open>cookingTimes[dish] || 10\<close>. The function is declared to return a number, but for a
  dish named like a member of \<^verbatim>\<open>Object.prototype\<close> it returns that member.
\<close>

definition getEstimatedCookingTime :: "string \<Rightarrow> js_value" where
  "getEstimatedCookingTime dish = read_or cookingTimes dish 10"

definition spawnPosition :: "role \<Rightarrow> position" where
  "spawnPosition role = (if role = Chef then (0, 16 / 10, -8) else (-8, 16 / 10, 10))"

definition join_room ::
  "string \<Rightarrow> string \<Rightarrow> role \<Rightarrow> string \<Rightarrow> int \<Rightarrow> rooms \<Rightarrow> rooms \<times> emission list" where
  "join_room sid roomId role username now rooms =
     (let (room, rooms1) =
            (case map_get rooms roomId of
               Some room \<Rightarrow> (room, rooms)
             | None \<Rightarrow>
                 (let room = initializeRoomTables
                       \<lparr>r_id = roomId, r_players = [], r_orders = [], r_tables = [],
                        r_createdAt = now\<rparr>
                  in (room, map_set roomId room rooms)))
      in
        if map_size (r_players room) \<ge> 2 then (rooms1, [Emit sid RoomFull])
        else if list_ex (\<lambda>p. p_role p = role) (map_values (r_players room))
        then (rooms1, [Emit sid RoleTaken])
        else
          let playerData = \<lparr>p_id = sid, p_role = role, p_position = spawnPosition role,
                             p_rotation = (0, 0), p_username = username\<rparr>;
              players' = map_set sid playerData (r_players room);
              otherPlayers = filter (\<lambda>p. p_id p \<noteq> sid) (map_values players')
          in (map_set roomId (room\<lparr>r_players := players'\<rparr>) rooms1,
              [Emit sid (RoomJoined roomId playerData otherPlayers),
               EmitTo sid roomId (PlayerJoined playerData)]))"

definition player_move ::
  "string \<Rightarrow> string \<Rightarrow> position \<Rightarrow> rotation \<Rightarrow> rooms \<Rightarrow> rooms \<times> emission list" where
  "player_move sid roomId pos rot rooms =
     (case map_get rooms roomId of
        None \<Rightarrow> (rooms, [])
      | Some room \<Rightarrow>
          (case map_get (r_players room) sid of
             None \<Rightarrow> (rooms, [])
           | Some player \<Rightarrow>
               (map_set roomId
                  (room\<lparr>r_players :=
                     map_set sid (player\<lparr>p_position := pos, p_rotation := rot\<rparr>) (r_players room)\<rparr>)
                  rooms,
                [EmitTo sid roomId (PlayerMoved sid pos rot)])))"

definition player_action ::
  "string \<Rightarrow> string \<Rightarrow> string \<Rightarrow> string \<Rightarrow> rooms \<Rightarrow> rooms \<times> emission list" where
  "player_action sid roomId action data rooms =
     (rooms, [EmitTo sid roomId (PlayerActionMsg sid action data)])"

definition book_table :: "string \<Rightarrow> string \<Rightarrow> int \<Rightarrow> rooms \<Rightarrow> rooms \<times> emission list" where
  "book_table sid roomId tableSize rooms =
     (case map_get rooms roomId of
        None \<Rightarrow> (rooms, [])
      | Some room \<Rightarrow>
          (case map_get (r_players room) sid of
             None \<Rightarrow> (rooms, [])
           | Some player \<Rightarrow>
               if p_role player \<noteq> Visitor then (rooms, [])
               else
                 (case List.find (\<lambda>table. \<not> rt_isOccupied table \<and> rt_capacity table \<ge> tableSize)
                         (map_values (r_tables room)) of
                    Some availableTable \<Rightarrow>
                      (map_set roomId
                         (room\<lparr>r_tables :=
                            updateFirst
                              (\<lambda>table. \<not> rt_isOccupied table \<and> rt_capacity table \<ge> tableSize)
                              (\<lambda>table. table\<lparr>rt_isOccupied := True, rt_reservedBy := Some sid\<rparr>)
                              (r_tables room)\<rparr>)
                         rooms,
                       [Emit sid (TableAssigned (rt_id availableTable)
                                    (rt_x availableTable, rt_z availableTable)),
                        EmitTo sid roomId (TableBooked (rt_id availableTable) sid)])
                  | None \<Rightarrow>
                      (rooms, [Emit sid (TableUnavailable ''No tables available, please wait'')]))))"

text \<open>
  \<^verbatim>\<open>place-order\<close> reads the clock twice: \<open>now\<close> for the order id, \<open>now'\<close> for the
  order time.
\<close>

definition place_order ::
  "string \<Rightarrow> string \<Rightarrow> DishLine list \<Rightarrow> int \<Rightarrow> int \<Rightarrow> int \<Rightarrow> rooms \<Rightarrow> rooms \<times> emission list" where
  "place_order sid roomId items tableId now now' rooms =
     (case map_get rooms roomId of
        None \<Rightarrow> (rooms, [])
      | Some room \<Rightarrow>
          (case map_get (r_players room) sid of
             None \<Rightarrow> (rooms, [])
           | Some player \<Rightarrow>
               if p_role player \<noteq> Visitor then (rooms, [])
               else
                 let orderId = ''order_'' @ show_int now @ ''_'' @ sid;
                     totalPrice = foldl (\<lambda>sum item. sum + l_price item) 0 items;
                     estimatedTime = foldl (\<lambda>sum item. js_plus sum
                         (js_times (getEstimatedCookingTime (l_dish item)) (l_quantity item)))
                         (Finite 0) items;
                     order = \<lparr>ro_id = orderId,
                              ro_dish = join '', ''
                                (map (\<lambda>item. show_int (l_quantity item) @ ''x '' @ l_dish item) items),
                              ro_price = totalPrice, ro_tableId = tableId, ro_orderTime = now',
                              ro_status = StatusPending, ro_estimatedTime = estimatedTime\<rparr>;
                     rooms' = map_set roomId
                                (room\<lparr>r_orders := map_set orderId order (r_orders room)\<rparr>) rooms
                 in (rooms',
                     (case List.find (\<lambda>p. p_role p = Chef) (map_values (r_players room)) of
                        Some chef \<Rightarrow>
                          [EmitTo sid (p_id chef)
                             (OrderReceived orderId (ro_dish order) tableId
                                (ro_estimatedTime order) items)]
                      | None \<Rightarrow> [])
                     @ [Emit sid (OrderPlaced orderId)])))"

definition order_status_update ::
  "string \<Rightarrow> string \<Rightarrow> string \<Rightarrow> room_order_status \<Rightarrow> rooms \<Rightarrow> rooms \<times> emission list" where
  "order_status_update sid roomId orderId status rooms =
     (case map_get rooms roomId of
        None \<Rightarrow> (rooms, [])
      | Some room \<Rightarrow>
          (case map_get (r_orders room) orderId of
             None \<Rightarrow> (rooms, [])
           | Some order \<Rightarrow>
               let orders1 = map_set orderId (order\<lparr>ro_status := status\<rparr>) (r_orders room);
                   orders2 = (if status = StatusServed then map_delete orderId orders1 else orders1)
               in (map_set roomId (room\<lparr>r_orders := orders2\<rparr>) rooms,
                   (case List.find (\<lambda>p. p_role p = Visitor) (map_values (r_players room)) of
                      Some visitor \<Rightarrow>
                        [EmitTo sid (p_id visitor)
                           (OrderStatusChanged orderId status (ro_dish order))]
                    | None \<Rightarrow> []))))"

definition submit_rating :: "string \<Rightarrow> string \<Rightarrow> int \<Rightarrow> rooms \<Rightarrow> rooms \<times> emission list" where
  "submit_rating sid roomId rating rooms =
     (case map_get rooms roomId of
        None \<Rightarrow> (rooms, [])
      | Some room \<Rightarrow>
          (case map_get (r_players room) sid of
             None \<Rightarrow> (rooms, [])
           | Some player \<Rightarrow>
               if p_role player \<noteq> Visitor then (rooms, [])
               else (rooms, [EmitTo sid roomId (RatingSubmitted sid rating)])))"

definition tutorial_completed :: "string \<Rightarrow> string \<Rightarrow> rooms \<Rightarrow> rooms \<times> emission list" where
  "tutorial_completed sid roomId rooms = (rooms, [EmitTo sid roomId (ChefReady sid)])"

definition visitor_sat_down :: "string \<Rightarrow> string \<Rightarrow> int \<Rightarrow> rooms \<Rightarrow> rooms \<times> emission list" where
  "visitor_sat_down sid roomId tableId rooms =
     (rooms, [EmitTo sid roomId (VisitorSeated sid tableId)])"

definition menu_requested :: "string \<Rightarrow> string \<Rightarrow> int \<Rightarrow> rooms \<Rightarrow> rooms \<times> emission list" where
  "menu_requested sid roomId tableId rooms =
     (rooms, [EmitTo sid roomId (MenuRequest sid tableId)])"

definition order_completed ::
  "string \<Rightarrow> string \<Rightarrow> string \<Rightarrow> int \<Rightarrow> bool \<Rightarrow> rooms \<Rightarrow> rooms \<times> emission list" where
  "order_completed sid roomId orderId completionTime wasOnTime rooms =
     (case map_get rooms roomId of
        None \<Rightarrow> (rooms, [])
      | Some room \<Rightarrow>
          (case map_get (r_orders room) orderId of
             None \<Rightarrow> (rooms, [])
           | Some order \<Rightarrow>
               (map_set roomId
                  (room\<lparr>r_orders :=
                     map_set orderId (order\<lparr>ro_status := StatusReady\<rparr>) (r_orders room)\<rparr>) rooms,
                (case List.find (\<lambda>p. p_role p = Visitor) (map_values (r_players room)) of
                   Some visitor \<Rightarrow>
                     [EmitTo sid (p_id visitor)
                        (OrderReady orderId (ro_dish order) wasOnTime completionTime)]
                 | None \<Rightarrow> []))))"

definition end_session :: "string \<Rightarrow> string \<Rightarrow> int \<Rightarrow> rooms \<Rightarrow> rooms \<times> emission list" where
  "end_session sid roomId now rooms =
     (case map_get rooms roomId of
        None \<Rightarrow> (rooms, [])
      | Some room \<Rightarrow>
          let gameStats = SessionEnded roomId (map_values (r_players room))
                            (map_values (r_orders room)) now
          in (map_delete roomId rooms, [EmitTo sid roomId gameStats, Emit sid gameStats]))"

text \<open>
  \<^verbatim>\<open>disconnect\<close>: \<^verbatim>\<open>rooms.forEach\<close> visits every room in insertion order; the callback
  removes the player and deletes the visited room when it has become empty.
\<close>

fun disconnect :: "string \<Rightarrow> rooms \<Rightarrow> rooms \<times> emission list" where
  "disconnect sid [] = ([], [])"
| "disconnect sid ((roomId, room) # rest) =
     (let (rest', es) = disconnect sid rest in
      if map_has (r_players room) sid then
        let room' = room\<lparr>r_players := map_delete sid (r_players room)\<rparr> in
        if map_size (r_players room') = 0
        then (rest', EmitTo sid roomId (PlayerLeft sid) # es)
        else ((roomId, room') # rest', EmitTo sid roomId (PlayerLeft sid) # es)
      else ((roomId, room) # rest', es))"

text \<open>The messages a connection can send, and the dispatch on their name.\<close>

datatype client_event =
    JoinRoom string role string
  | PlayerMove string position rotation
  | PlayerAction string string string
  | BookTable string int
  | PlaceOrder string "DishLine list" int
  | OrderStatusUpdate string string room_order_status
  | SubmitRating string int
  | TutorialCompleted string
  | VisitorSatDown string int
  | MenuRequested string int
  | OrderCompleted string string int bool
  | EndSession string
  | Disconnect

fun handle :: "string \<Rightarrow> int \<Rightarrow> int \<Rightarrow> client_event \<Rightarrow> rooms \<Rightarrow> rooms \<times> emission list" where
  "handle sid now now' (JoinRoom roomId role username) rooms =
     join_room sid roomId role username now rooms"
| "handle sid now now' (PlayerMove roomId pos rot) rooms = player_move sid roomId pos rot rooms"
| "handle sid now now' (PlayerAction roomId action data) rooms =
     player_action sid roomId action data rooms"
| "handle sid now now' (BookTable roomId tableSize) rooms = book_table sid roomId tableSize rooms"
| "handle sid now now' (PlaceOrder roomId items tableId) rooms =
     place_order sid roomId items tableId now now' rooms"
| "handle sid now now' (OrderStatusUpdate roomId orderId status) rooms =
     order_status_update sid roomId orderId status rooms"
| "handle sid now now' (SubmitRating roomId rating) rooms = submit_rating sid roomId rating rooms"
| "handle sid now now' (TutorialCompleted roomId) rooms = tutorial_completed sid roomId rooms"
| "handle sid now now' (VisitorSatDown roomId tableId) rooms =
     visitor_sat_down sid roomId tableId rooms"
| "handle sid now now' (MenuRequested roomId tableId) rooms =
     menu_requested sid roomId tableId rooms"
| "handle sid now now' (OrderCompleted roomId orderId completionTime wasOnTime) rooms =
     order_completed sid roomId orderId completionTime wasOnTime rooms"
| "handle sid now now' (EndSession roomId) rooms = end_session sid roomId now rooms"
| "handle sid now now' Disconnect rooms = disconnect sid rooms"

text \<open>
  The states of the room store: empty when the process starts, then changed only by the
  handlers, one message at a time.
\<close>

inductive reachable :: "rooms \<Rightarrow> bool" where
  reachable_init: "reachable []"
| reachable_step: "reachable rooms \<Longrightarrow> reachable (fst (handle sid now now' ev rooms))"

section \<open>The standalone server (src/server.js, the socket handlers)\<close>

text \<open>
  The JavaScript server keeps rooms with a player map only. Its payloads are untyped, so a
  role is whatever string the client sent.
\<close>

record ServerPlayer =
  sp_id :: string
  sp_role :: string
  sp_position :: position
  sp_rotation :: rotation
  sp_username :: string

record ServerRoom =
  sr_id :: string
  sr_players :: "(string \<times> ServerPlayer) list"
  sr_createdAt :: int

datatype server_message =
    SRoomFull
  | SRoleTaken
  | SRoomJoined string ServerPlayer "ServerPlayer list"
  | SPlayerJoined ServerPlayer
  | SPlayerMoved string position rotation
  | SPlayerAction string string string
  | SPlayerLeft string

datatype server_emission = SEmit string server_message | SEmitTo string string server_message

type_synonym server_rooms = "(string \<times> ServerRoom) list"

definition server_join_room ::
  "string \<Rightarrow> string \<Rightarrow> string \<Rightarrow> string \<Rightarrow> int \<Rightarrow> server_rooms
     \<Rightarrow> server_rooms \<times> server_emission list" where
  "server_join_room sid roomId role username now rooms =
     (let (room, rooms1) =
            (case map_get rooms roomId of
               Some room \<Rightarrow> (room, rooms)
             | None \<Rightarrow>
                 (let room = \<lparr>sr_id = roomId, sr_players = [], sr_createdAt = now\<rparr>
                  in (room, map_set roomId room rooms)))
      in
        if map_size (sr_players room) \<ge> 2 then (rooms1, [SEmit sid SRoomFull])
        else if list_ex (\<lambda>p. sp_role p = role) (map_values (sr_players room))
        then (rooms1, [SEmit sid SRoleTaken])
        else
          let playerData = \<lparr>sp_id = sid, sp_role = role,
                             sp_position = (if role = ''chef'' then (0, 16 / 10, -8)
                                            else (-8, 16 / 10, 10)),
                             sp_rotation = (0, 0), sp_username = username\<rparr>;
              players' = map_set sid playerData (sr_players room);
              otherPlayers = filter (\<lambda>p. sp_id p \<noteq> sid) (map_values players')
          in (map_set roomId (room\<lparr>sr_players := players'\<rparr>) rooms1,
              [SEmit sid (SRoomJoined roomId playerData otherPlayers),
               SEmitTo sid roomId (SPlayerJoined playerData)]))"

definition server_player_move ::
  "string \<Rightarrow> string \<Rightarrow> position \<Rightarrow> rotation \<Rightarrow> server_rooms
     \<Rightarrow> server_rooms \<times> server_emission list" where
  "server_player_move sid roomId pos rot rooms =
     (case map_get rooms roomId of
        None \<Rightarrow> (rooms, [])
      | Some room \<Rightarrow>
          (case map_get (sr_players room) sid of
             None \<Rightarrow> (rooms, [])
           | Some player \<Rightarrow>
               (map_set roomId
                  (room\<lparr>sr_players :=
                     map_set sid (player\<lparr>sp_position := pos, sp_rotation := rot\<rparr>)
                       (sr_players room)\<rparr>)
                  rooms,
                [SEmitTo sid roomId (SPlayerMoved sid pos rot)])))"

definition server_player_action ::
  "string \<Rightarrow> string \<Rightarrow> string \<Rightarrow> string \<Rightarrow> server_rooms
     \<Rightarrow> server_rooms \<times> server_emission list" where
  "server_player_action sid roomId action data rooms =
     (rooms, [SEmitTo sid roomId (SPlayerAction sid action data)])"

fun server_disconnect :: "string \<Rightarrow> server_rooms \<Rightarrow> server_rooms \<times> server_emission list" where
  "server_disconnect sid [] = ([], [])"
| "server_disconnect sid ((roomId, room) # rest) =
     (let (rest', es) = server_disconnect sid rest in
      if map_has (sr_players room) sid then
        let room' = room\<lparr>sr_players := map_delete sid (sr_players room)\<rparr> in
        if map_size (sr_players room') = 0
        then (rest', SEmitTo sid roomId (SPlayerLeft sid) # es)
        else ((roomId, room') # rest', SEmitTo sid roomId (SPlayerLeft sid) # es)
      else ((roomId, room) # rest', es))"

datatype server_event =
    SJoinRoom string string string
  | SPlayerMove string position rotation
  | SPlayerActionEvent string string string
  | SDisconnect

fun server_handle ::
  "string \<Rightarrow> int \<Rightarrow> server_event \<Rightarrow> server_rooms \<Rightarrow> server_rooms \<times> server_emission list" where
  "server_handle sid now (SJoinRoom roomId role username) rooms =
     server_join_room sid roomId role username now rooms"
| "server_handle sid now (SPlayerMove roomId pos rot) rooms =
     server_player_move sid roomId pos rot rooms"
| "server_handle sid now (SPlayerActionEvent roomId action data) rooms =
     server_player_action sid roomId action data rooms"
| "server_handle sid now SDisconnect rooms = server_disconnect sid rooms"

inductive server_reachable :: "server_rooms \<Rightarrow> bool" where
  server_reachable_init: "server_reachable []"
| server_reachable_step:
    "server_reachable rooms \<Longrightarrow> server_reachable (fst (server_handle sid now ev rooms))"

section \<open>The visitor phase machine (VisitorFlowController)\<close>

datatype visitor_phase =
    Entrance | Reception | Booking | WaiterApproaching | WalkingToTable | AtTable | Seated
  | MenuRequestedPhase | Ordering | Waiting | ServedPhase | Rating | Complete

record CurrentOrder =
  co_dish :: string
  co_price :: int
  co_orderTime :: int

record VisitorState =
  vs_phase :: visitor_phase
  vs_currentTable :: "int option"
  vs_selectedTableSize :: "int option"
  vs_currentOrder :: "CurrentOrder option"
  vs_rating :: "int option"
  vs_isAtReception :: bool
  vs_isSeated :: bool
  vs_proximityToNPC :: "string option"
  vs_waiterApproached :: bool
  vs_menuRequested :: bool

text \<open>
  The controller: its state, its private copies of tables and orders, and what it has
  handed to the outside, in order: the snapshots passed to \<^verbatim>\<open>onStateChange\<close>, the orders
  passed to \<^verbatim>\<open>onOrderUpdate\<close>, and the callbacks given to \<^verbatim>\<open>setTimeout\<close> with their
  delay. Every method also works on the process-wide \<^verbatim>\<open>gameDatabase\<close>, which is passed
  along explicitly where a method uses it. The controller's interfaces \<^verbatim>\<open>TableData\<close> and
  \<^verbatim>\<open>OrderData\<close> repeat those of the relay handler field by field, so the records
  \<open>RoomTable\<close> and \<open>RoomOrder\<close> stand for them too. The proximity tests and
  \<^verbatim>\<open>reset\<close> are left out: nothing below depends on them.
\<close>

datatype timer = CallWaiterApproached | CallMenuShown

record VisitorFlowController =
  state :: VisitorState
  v_tables :: "(int \<times> RoomTable) list"
  v_orders :: "(string \<times> RoomOrder) list"
  stateChanges :: "VisitorState list"
  orderUpdates :: "RoomOrder list"
  timeouts :: "(int \<times> timer) list"

definition initialVisitorState :: VisitorState where
  "initialVisitorState =
     \<lparr>vs_phase = Entrance, vs_currentTable = None, vs_selectedTableSize = None,
      vs_currentOrder = None, vs_rating = None, vs_isAtReception = False, vs_isSeated = False,
      vs_proximityToNPC = None, vs_waiterApproached = False, vs_menuRequested = False\<rparr>"

definition newVisitorFlowController :: "GameDatabase \<Rightarrow> VisitorFlowController" where
  "newVisitorFlowController db =
     \<lparr>state = initialVisitorState,
      v_tables = foldl (\<lambda>m table. map_set (t_id table)
                          \<lparr>rt_id = t_id table, rt_x = t_x table, rt_z = t_z table,
                           rt_capacity = t_capacity table, rt_isOccupied = t_isOccupied table,
                           rt_reservedBy = t_reservedBy table\<rparr> m) [] (getTables db),
      v_orders = [], stateChanges = [], orderUpdates = [], timeouts = []\<rparr>"

definition notifyStateChange :: "VisitorFlowController \<Rightarrow> VisitorFlowController" where
  "notifyStateChange c = c\<lparr>stateChanges := stateChanges c @ [state c]\<rparr>"

definition notifyOrderUpdate :: "RoomOrder \<Rightarrow> VisitorFlowController \<Rightarrow> VisitorFlowController" where
  "notifyOrderUpdate order c = c\<lparr>orderUpdates := orderUpdates c @ [order]\<rparr>"

definition enterReception :: "VisitorFlowController \<Rightarrow> VisitorFlowController" where
  "enterReception c =
     (if vs_phase (state c) = Entrance
      then notifyStateChange (c\<lparr>state := (state c)\<lparr>vs_phase := Reception, vs_isAtReception := True\<rparr>\<rparr>)
      else c)"

definition startBooking :: "int \<Rightarrow> VisitorFlowController \<Rightarrow> VisitorFlowController" where
  "startBooking tableSize c =
     (if vs_phase (state c) = Reception
      then notifyStateChange
             (c\<lparr>state := (state c)\<lparr>vs_phase := Booking, vs_selectedTableSize := Some tableSize\<rparr>\<rparr>)
      else c)"

definition assignTable ::
  "int \<Rightarrow> int \<Rightarrow> VisitorFlowController \<times> GameDatabase \<Rightarrow> VisitorFlowController \<times> GameDatabase" where
  "assignTable tableId now w =
     (case w of (c, db) \<Rightarrow>
        (case reserveTable db tableId ''visitor'' now of (db', success) \<Rightarrow>
           if success then
             let tables' = (case map_get (v_tables c) tableId of
                              Some table \<Rightarrow>
                                map_set tableId
                                  (table\<lparr>rt_isOccupied := True, rt_reservedBy := Some ''visitor''\<rparr>)
                                  (v_tables c)
                            | None \<Rightarrow> v_tables c);
                 c1 = notifyStateChange
                        (c\<lparr>v_tables := tables',
                           state := (state c)\<lparr>vs_currentTable := Some tableId,
                                               vs_phase := WaiterApproaching,
                                               vs_waiterApproached := True\<rparr>\<rparr>)
             in (c1\<lparr>timeouts := timeouts c1 @ [(1000, CallWaiterApproached)]\<rparr>, db')
           else (c, db')))"

definition waiterApproached :: "VisitorFlowController \<Rightarrow> VisitorFlowController" where
  "waiterApproached c =
     (if vs_phase (state c) = WaiterApproaching
      then notifyStateChange (c\<lparr>state := (state c)\<lparr>vs_phase := WalkingToTable\<rparr>\<rparr>)
      else c)"

definition reachedTable :: "VisitorFlowController \<Rightarrow> VisitorFlowController" where
  "reachedTable c =
     (if vs_phase (state c) = WalkingToTable
      then notifyStateChange (c\<lparr>state := (state c)\<lparr>vs_phase := AtTable\<rparr>\<rparr>)
      else c)"

definition sitDown :: "VisitorFlowController \<Rightarrow> VisitorFlowController" where
  "sitDown c =
     (if vs_phase (state c) = AtTable
      then notifyStateChange (c\<lparr>state := (state c)\<lparr>vs_phase := Seated, vs_isSeated := True\<rparr>\<rparr>)
      else c)"

definition requestMenu :: "VisitorFlowController \<Rightarrow> VisitorFlowController" where
  "requestMenu c =
     (if vs_phase (state c) = Seated
      then (let c1 = notifyStateChange
                       (c\<lparr>state := (state c)\<lparr>vs_phase := MenuRequestedPhase,
                                              vs_menuRequested := True\<rparr>\<rparr>)
            in c1\<lparr>timeouts := timeouts c1 @ [(1500, CallMenuShown)]\<rparr>)
      else c)"

definition menuShown :: "VisitorFlowController \<Rightarrow> VisitorFlowController" where
  "menuShown c =
     (if vs_phase (state c) = MenuRequestedPhase
      then notifyStateChange (c\<lparr>state := (state c)\<lparr>vs_phase := Ordering\<rparr>\<rparr>)
      else c)"

definition seatAtTable :: "VisitorFlowController \<Rightarrow> VisitorFlowController" where
  "seatAtTable c =
     (if vs_phase (state c) = WalkingToTable
      then notifyStateChange (c\<lparr>state := (state c)\<lparr>vs_phase := Seated, vs_isSeated := True\<rparr>\<rparr>)
      else c)"

definition startOrdering :: "VisitorFlowController \<Rightarrow> VisitorFlowController" where
  "startOrdering c =
     (if vs_phase (state c) = Seated
      then notifyStateChange (c\<lparr>state := (state c)\<lparr>vs_phase := Ordering\<rparr>\<rparr>)
      else c)"

text \<open>
  \<^verbatim>\<open>placeOrder\<close>: \<open>orderId\<close> and \<open>now\<close> are what \<open>createOrder\<close> reads, \<open>now'\<close> is the
  controller's own clock read. A table id counts as present when it is neither null nor 0.
\<close>

definition placeOrder ::
  "OrderItem list \<Rightarrow> string \<Rightarrow> int \<Rightarrow> int \<Rightarrow> VisitorFlowController \<times> GameDatabase
     \<Rightarrow> VisitorFlowController \<times> GameDatabase" where
  "placeOrder items orderId now now' w =
     (case w of (c, db) \<Rightarrow>
        (case vs_currentTable (state c) of
           None \<Rightarrow> (c, db)
         | Some currentTable \<Rightarrow>
             if vs_phase (state c) = Ordering \<and> currentTable \<noteq> 0 then
               (case createOrder db currentTable items orderId now of
                  (db', None) \<Rightarrow> (c, db')
                | (db', Some order) \<Rightarrow>
                    let orderData =
                          \<lparr>ro_id = o_id order,
                           ro_dish = join '', ''
                             (map (\<lambda>item. show_int (i_quantity item) @ ''x '' @ i_name item) items),
                           ro_price = foldl (\<lambda>sum item. sum + i_price item) 0 items,
                           ro_tableId = currentTable, ro_orderTime = now',
                           ro_status = StatusPending,
                           ro_estimatedTime = Finite (o_estimatedTime order)\<rparr>;
                        c1 = c\<lparr>v_orders := map_set (o_id order) orderData (v_orders c),
                               state := (state c)\<lparr>vs_currentOrder :=
                                            Some \<lparr>co_dish = ro_dish orderData,
                                                  co_price = ro_price orderData,
                                                  co_orderTime = ro_orderTime orderData\<rparr>,
                                          vs_phase := Waiting\<rparr>\<rparr>
                    in (notifyOrderUpdate orderData (notifyStateChange c1), db'))
             else (c, db)))"

definition visitor_updateOrderStatus ::
  "string \<Rightarrow> room_order_status \<Rightarrow> VisitorFlowController \<Rightarrow> VisitorFlowController" where
  "visitor_updateOrderStatus orderId status c =
     (case map_get (v_orders c) orderId of
        None \<Rightarrow> c
      | Some order \<Rightarrow>
          let order' = order\<lparr>ro_status := status\<rparr>;
              c1 = notifyOrderUpdate order' (c\<lparr>v_orders := map_set orderId order' (v_orders c)\<rparr>)
          in if status = StatusServed \<and>
                (case vs_currentOrder (state c1) of
                   None \<Rightarrow> False
                 | Some cur \<Rightarrow> co_dish cur = ro_dish order')
             then notifyStateChange (c1\<lparr>state := (state c1)\<lparr>vs_phase := ServedPhase\<rparr>\<rparr>)
             else c1)"

definition submitRating :: "int \<Rightarrow> VisitorFlowController \<Rightarrow> VisitorFlowController" where
  "submitRating rating c =
     (if vs_phase (state c) = ServedPhase
      then notifyStateChange
             (c\<lparr>state := (state c)\<lparr>vs_rating := Some rating, vs_phase := Complete\<rparr>\<rparr>)
      else c)"

section \<open>The chef phase machine (ChefFlowController)\<close>

text \<open>
  Times, durations and progress are JavaScript numbers that the controller divides, so
  they are modelled as reals; the score is a sum of integers for as long as every base
  score read from the dish table is a number. Dividing by a zero estimated
  time is the one place where the code can leave the finite numbers (a quotient that is
  infinite or not a number), so the progress value has its own type that keeps these
  outcomes apart, with JavaScript's rules for \<^verbatim>\<open>/\<close>, \<^verbatim>\<open>*\<close>, \<^verbatim>\<open>Math.min\<close> and
  \<^verbatim>\<open>>=\<close> on them. The clock read by \<^verbatim>\<open>Date.now()\<close> is an input of the methods
  that read it, and the calls of the two optional callbacks are recorded in order.
\<close>

datatype jsnum = Num real | PosInfinity | NegInfinity | NaN

definition js_div :: "real \<Rightarrow> real \<Rightarrow> jsnum" where
  "js_div a b =
     (if b \<noteq> 0 then Num (a / b)
      else if a > 0 then PosInfinity
      else if a < 0 then NegInfinity
      else NaN)"

fun js_times100 :: "jsnum \<Rightarrow> jsnum" where
  "js_times100 (Num r) = Num (r * 100)"
| "js_times100 PosInfinity = PosInfinity"
| "js_times100 NegInfinity = NegInfinity"
| "js_times100 NaN = NaN"

fun js_min100 :: "jsnum \<Rightarrow> jsnum" where
  "js_min100 (Num r) = Num (min r 100)"
| "js_min100 PosInfinity = Num 100"
| "js_min100 NegInfinity = NegInfinity"
| "js_min100 NaN = NaN"

fun js_ge100 :: "jsnum \<Rightarrow> bool" where
  "js_ge100 (Num r) = (r \<ge> 100)"
| "js_ge100 PosInfinity = True"
| "js_ge100 NegInfinity = False"
| "js_ge100 NaN = False"

datatype chef_phase =
    Spawn | Tutorial | WaitingForOrder | CookingPhase | Serving | ChefComplete

record ChefOrder =
  c_id :: string
  c_dish :: string
  c_tableId :: int
  c_orderTime :: real
  c_estimatedTime :: real

datatype difficulty = Easy | Medium | Hard

record OrderRequest = ChefOrder +
  c_ingredients :: "string list"
  c_difficulty :: difficulty

record ChefState =
  cs_phase :: chef_phase
  cs_currentOrder :: "ChefOrder option"
  cs_cookingProgress :: jsnum
  cs_timeRemaining :: real
  cs_score :: js_sum
  cs_completedOrders :: nat
  cs_isInKitchen :: bool
  cs_tutorialCompleted :: bool

record ChefFlowController =
  chefState :: ChefState
  cookingStartTime :: real
  chefStateChanges :: "ChefState list"
  ordersReceived :: "OrderRequest list"

definition initialChefState :: ChefState where
  "initialChefState =
     \<lparr>cs_phase = Spawn, cs_currentOrder = None, cs_cookingProgress = Num 0,
      cs_timeRemaining = 0, cs_score = Points 0, cs_completedOrders = 0,
      cs_isInKitchen = False, cs_tutorialCompleted = False\<rparr>"

definition newChefFlowController :: ChefFlowController where
  "newChefFlowController =
     \<lparr>chefState = initialChefState, cookingStartTime = 0, chefStateChanges = [],
      ordersReceived = []\<rparr>"

definition chef_notifyStateChange :: "ChefFlowController \<Rightarrow> ChefFlowController" where
  "chef_notifyStateChange c = c\<lparr>chefStateChanges := chefStateChanges c @ [chefState c]\<rparr>"

definition notifyOrderReceived :: "OrderRequest \<Rightarrow> ChefFlowController \<Rightarrow> ChefFlowController" where
  "notifyOrderReceived order c = c\<lparr>ordersReceived := ordersReceived c @ [order]\<rparr>"

definition startTutorial :: "ChefFlowController \<Rightarrow> ChefFlowController" where
  "startTutorial c =
     (if cs_phase (chefState c) = Spawn
      then chef_notifyStateChange (c\<lparr>chefState := (chefState c)\<lparr>cs_phase := Tutorial\<rparr>\<rparr>)
      else c)"

definition completeTutorial :: "ChefFlowController \<Rightarrow> ChefFlowController" where
  "completeTutorial c =
     (if cs_phase (chefState c) = Tutorial
      then chef_notifyStateChange
             (c\<lparr>chefState := (chefState c)\<lparr>cs_phase := WaitingForOrder,
                                            cs_tutorialCompleted := True\<rparr>\<rparr>)
      else c)"

definition enterKitchen :: "ChefFlowController \<Rightarrow> ChefFlowController" where
  "enterKitchen c = chef_notifyStateChange (c\<lparr>chefState := (chefState c)\<lparr>cs_isInKitchen := True\<rparr>\<rparr>)"

definition exitKitchen :: "ChefFlowController \<Rightarrow> ChefFlowController" where
  "exitKitchen c = chef_notifyStateChange (c\<lparr>chefState := (chefState c)\<lparr>cs_isInKitchen := False\<rparr>\<rparr>)"

definition receiveOrder :: "OrderRequest \<Rightarrow> real \<Rightarrow> ChefFlowController \<Rightarrow> ChefFlowController" where
  "receiveOrder order now c =
     (if cs_phase (chefState c) = WaitingForOrder
      then notifyOrderReceived order
             (chef_notifyStateChange
                (c\<lparr>chefState := (chefState c)
                       \<lparr>cs_currentOrder :=
                          Some \<lparr>c_id = c_id order, c_dish = c_dish order,
                                c_tableId = c_tableId order, c_orderTime = c_orderTime order,
                                c_estimatedTime = c_estimatedTime order\<rparr>,
                        cs_phase := CookingPhase,
                        cs_timeRemaining := c_estimatedTime order\<rparr>,
                   cookingStartTime := now\<rparr>))
      else c)"

definition startCooking :: "real \<Rightarrow> ChefFlowController \<Rightarrow> ChefFlowController" where
  "startCooking now c =
     (if cs_phase (chefState c) = CookingPhase \<and> cs_currentOrder (chefState c) \<noteq> None
      then chef_notifyStateChange
             (c\<lparr>cookingStartTime := now,
                chefState := (chefState c)\<lparr>cs_cookingProgress := Num 0\<rparr>\<rparr>)
      else c)"

definition dishScores :: "(string \<times> int) list" where
  "dishScores =
     [(''Pasta Carbonara'', 100), (''Grilled Steak'', 150), (''Caesar Salad'', 80),
      (''Tomato Soup'', 120), (''Gourmet Burger'', 200), (''Margherita Pizza'', 180)]"

text \<open>
  \<^verbatim>\<open>scores[dish] || 100\<close>, a read of the same kind as that of \<open>getEstimatedCookingTime\<close>.
\<close>

definition getDishScore :: "string \<Rightarrow> js_value" where
  "getDishScore dish = read_or dishScores dish 100"

text \<open>
  \<^verbatim>\<open>completeCooking\<close>: \<^verbatim>\<open>baseScore + Math.floor(timeBonus * 10)\<close> is a sum of numbers
  when the base score is a number and a string otherwise, and \<^verbatim>\<open>score += earnedScore\<close>
  is a sum of numbers when both are numbers and a string otherwise.
\<close>

definition completeCooking :: "ChefFlowController \<Rightarrow> ChefFlowController" where
  "completeCooking c =
     (case cs_currentOrder (chefState c) of
        None \<Rightarrow> c
      | Some currentOrder \<Rightarrow>
          let timeBonus = max 0 (c_estimatedTime currentOrder - cs_timeRemaining (chefState c));
              baseScore = getDishScore (c_dish currentOrder);
              earnedScore = js_add baseScore \<lfloor>timeBonus * 10\<rfloor>
          in chef_notifyStateChange
               (c\<lparr>chefState := (chefState c)
                      \<lparr>cs_score := js_append (cs_score (chefState c)) earnedScore,
                       cs_completedOrders := cs_completedOrders (chefState c) + 1,
                       cs_phase := Serving\<rparr>\<rparr>))"

definition updateCookingProgress :: "real \<Rightarrow> ChefFlowController \<Rightarrow> ChefFlowController" where
  "updateCookingProgress currentTime c =
     (case cs_currentOrder (chefState c) of
        None \<Rightarrow> c
      | Some currentOrder \<Rightarrow>
          if cs_phase (chefState c) = CookingPhase then
            let elapsed = (currentTime - cookingStartTime c) / 1000;
                progress = js_min100 (js_times100 (js_div elapsed (c_estimatedTime currentOrder)));
                c1 = c\<lparr>chefState := (chefState c)
                          \<lparr>cs_cookingProgress := progress,
                           cs_timeRemaining := max (c_estimatedTime currentOrder - elapsed) 0\<rparr>\<rparr>;
                c2 = (if js_ge100 progress then completeCooking c1 else c1)
            in chef_notifyStateChange c2
          else c)"

definition serveOrder :: "ChefFlowController \<Rightarrow> ChefFlowController" where
  "serveOrder c =
     (if cs_phase (chefState c) = Serving
      then chef_notifyStateChange
             (c\<lparr>chefState := (chefState c)
                    \<lparr>cs_currentOrder := None, cs_cookingProgress := Num 0,
                     cs_timeRemaining := 0, cs_phase := WaitingForOrder\<rparr>\<rparr>)
      else c)"

section \<open>Invariants of the room stores\<close>

text \<open>
  A player map is in order when it holds at most two players, no connection id twice and no
  role twice (\<open>f\<close> reads the role of a player). A room store is in order when no room id
  occurs twice and every room's player map is in order.
\<close>

definition players_ok :: "('p \<Rightarrow> 'r) \<Rightarrow> (string \<times> 'p) list \<Rightarrow> bool" where
  "players_ok f ps \<longleftrightarrow>
     length ps \<le> 2 \<and> distinct (map fst ps) \<and> distinct (map (\<lambda>p. f (snd p)) ps)"

definition rooms_ok :: "rooms \<Rightarrow> bool" where
  "rooms_ok rooms \<longleftrightarrow>
     distinct (map fst rooms) \<and> list_all (\<lambda>e. players_ok p_role (r_players (snd e))) rooms"

text \<open>The same invariant for the store of the standalone server.\<close>

definition server_rooms_ok :: "server_rooms \<Rightarrow> bool" where
  "server_rooms_ok rooms \<longleftrightarrow>
     distinct (map fst rooms) \<and> list_all (\<lambda>e. players_ok sp_role (sr_players (snd e))) rooms"

text \<open>
  Every room keeps the six tables of the static layout, under their ids and in their order.
\<close>

definition tables_ok :: "rooms \<Rightarrow> bool" where
  "tables_ok rooms \<longleftrightarrow>
     list_all (\<lambda>e. map rt_id (map_values (r_tables (snd e))) = [1, 2, 3, 4, 5, 6]) rooms"

section \<open>Scenario states\<close>

text \<open>
  Scenario A: tables 1, 3, 4 and 5 are reserved, which leaves one table of capacity 4
  (table 2) and one of capacity 6 (table 6) free.
\<close>

definition scenarioA_db :: GameDatabase where
  "scenarioA_db =
     fst (reserveTable (fst (reserveTable (fst (reserveTable (fst (reserveTable
        newGameDatabase 1 ''visitor'' 100)) 3 ''visitor'' 200)) 4 ''visitor'' 300)) 5 ''visitor'' 400)"

text \<open>
  Scenario B: three burgers have been sold from the fresh stock of five, so two remain.
\<close>

definition scenarioB_db :: GameDatabase where
  "scenarioB_db = fst (updateInventory newGameDatabase [\<lparr>q_name = ''Burger'', q_quantity = 3\<rparr>])"

text \<open>A database in which table 3 has been reserved.\<close>

definition occupied_db :: GameDatabase where
  "occupied_db = fst (reserveTable newGameDatabase 3 ''visitor'' 1000)"

text \<open>A room with a visitor, and the same room after a chef has joined, in both servers.\<close>

definition room_one :: rooms where
  "room_one = fst (handle ''s1'' 1 1 (JoinRoom ''r'' Visitor ''ann'') [])"

definition room_two :: rooms where
  "room_two = fst (handle ''s2'' 2 2 (JoinRoom ''r'' Chef ''bob'') room_one)"

definition server_room_one :: server_rooms where
  "server_room_one = fst (server_handle ''s1'' 1 (SJoinRoom ''r'' ''visitor'' ''ann'') [])"

definition server_room_two :: server_rooms where
  "server_room_two = fst (server_handle ''s2'' 2 (SJoinRoom ''r'' ''chef'' ''bob'') server_room_one)"

text \<open>
  Scenario D: the only player of room \<open>r\<close> has booked a table, so the room carries a
  reservation when that player disconnects.
\<close>

definition stale_room :: rooms where
  "stale_room = fst (handle ''s1'' 5 5 (BookTable ''r'' 2) room_one)"

text \<open>
  Scenario C: a chef who has finished the tutorial receives, at clock 1000, an order for a
  Gourmet Burger with an estimated time of 10 seconds.
\<close>

definition chef_waiting :: ChefFlowController where
  "chef_waiting = completeTutorial (startTutorial newChefFlowController)"

definition burger_request :: OrderRequest where
  "burger_request =
     \<lparr>c_id = ''order_1'', c_dish = ''Gourmet Burger'', c_tableId = 3, c_orderTime = 1000,
      c_estimatedTime = 10, c_ingredients = [], c_difficulty = Medium\<rparr>"

definition chef_cooking :: ChefFlowController where
  "chef_cooking = receiveOrder burger_request 1000 chef_waiting"

text \<open>
  The visitor's walk through the restaurant: a fresh controller on a fresh database, the
  same visitor once the menu has been shown, and once the order has been served and rated.
\<close>

definition visitor_start :: "VisitorFlowController \<times> GameDatabase" where
  "visitor_start = (newVisitorFlowController newGameDatabase, newGameDatabase)"

definition visitor_ordering :: "VisitorFlowController \<times> GameDatabase" where
  "visitor_ordering =
     apfst menuShown (apfst requestMenu (apfst sitDown (apfst reachedTable
       (apfst waiterApproached (assignTable 3 1000
          (apfst (startBooking 2) (apfst enterReception visitor_start)))))))"

definition visitor_done :: "VisitorFlowController \<times> GameDatabase" where
  "visitor_done =
     apfst (submitRating 5) (apfst (visitor_updateOrderStatus ''order_1'' StatusServed)
       (placeOrder [\<lparr>i_name = ''Burger'', i_quantity = 1, i_price = 15\<rparr>] ''order_1'' 2000 2001
          visitor_ordering))"

text \<open>The same chef with an order whose estimated time is 0, as an order without lines has.\<close>

definition instant_request :: OrderRequest where
  "instant_request =
     \<lparr>c_id = ''order_2'', c_dish = ''Caesar Salad'', c_tableId = 3, c_orderTime = 1000,
      c_estimatedTime = 0, c_ingredients = [], c_difficulty = Medium\<rparr>"

definition chef_instant :: ChefFlowController where
  "chef_instant = receiveOrder instant_request 1000 chef_waiting"

text \<open>
  The same chef with an order for a dish called \<open>constructor\<close>, a name that the score table
  does not list and that every object inherits, and with an order for a dish called
  \<open>Dragon Stew\<close>, a name found nowhere. Both have an estimated time of 10 seconds.
\<close>

definition constructor_request :: OrderRequest where
  "constructor_request =
     \<lparr>c_id = ''order_3'', c_dish = ''constructor'', c_tableId = 3, c_orderTime = 1000,
      c_estimatedTime = 10, c_ingredients = [], c_difficulty = Medium\<rparr>"

definition chef_constructor :: ChefFlowController where
  "chef_constructor = receiveOrder constructor_request 1000 chef_waiting"

definition stew_request :: OrderRequest where
  "stew_request =
     \<lparr>c_id = ''order_4'', c_dish = ''Dragon Stew'', c_tableId = 3, c_orderTime = 1000,
      c_estimatedTime = 10, c_ingredients = [], c_difficulty = Medium\<rparr>"

definition chef_stew :: ChefFlowController where
  "chef_stew = receiveOrder stew_request 1000 chef_waiting"

text \<open>
  Two orders of two lines each, for two bowls of Tomato Soup and one portion of a second
  dish: \<open>Dragon Stew\<close> in the first, \<open>constructor\<close> in the second.
\<close>

definition stew_items :: "DishLine list" where
  "stew_items =
     [\<lparr>l_dish = ''Tomato Soup'', l_quantity = 2, l_price = 24\<rparr>,
      \<lparr>l_dish = ''Dragon Stew'', l_quantity = 1, l_price = 99\<rparr>]"

definition constructor_items :: "DishLine list" where
  "constructor_items =
     [\<lparr>l_dish = ''Tomato Soup'', l_quantity = 2, l_price = 24\<rparr>,
      \<lparr>l_dish = ''constructor'', l_quantity = 1, l_price = 99\<rparr>]"

section \<open>Facts about the map operations\<close>

lemma map_get_map_set: "map_get (map_set k v m) k' = (if k' = k then Some v else map_get m k')"
  by (induction m) auto

lemma key_in_image: "(k, v) \<in> set m \<Longrightarrow> k \<in> fst ` set m"
  by (rule image_eqI [where x = "(k, v)"]) simp_all

lemma set_map_set: "set (map_set k v m) \<subseteq> insert (k, v) (set m)"
proof (induction m)
  case (Cons p m)
  then show ?case by (cases p) auto
qed simp

lemma keys_map_set: "fst ` set (map_set k v m) = insert k (fst ` set m)"
proof (induction m)
  case (Cons p m)
  then show ?case by (cases p) auto
qed simp

lemma distinct_map_set: "distinct (map fst m) \<Longrightarrow> distinct (map fst (map_set k v m))"
proof (induction m)
  case (Cons p m)
  then show ?case by (cases p) (auto simp: keys_map_set)
qed simp

lemma length_map_set: "length (map_set k v m) \<le> Suc (length m)"
  by (induction m) auto

lemma map_get_Some_mem: "map_get m k = Some v \<Longrightarrow> (k, v) \<in> set m"
proof (induction m)
  case (Cons p m)
  then show ?case by (cases p) (simp split: if_splits)
qed simp

lemma map_get_None_iff: "map_get m k = None \<longleftrightarrow> k \<notin> fst ` set m"
proof (induction m)
  case (Cons p m)
  then show ?case by (cases p) simp
qed simp

lemma set_map_delete: "set (map_delete k m) \<subseteq> set m"
proof (induction m)
  case (Cons p m)
  then show ?case by (cases p) auto
qed simp

lemma keys_map_delete: "fst ` set (map_delete k m) \<subseteq> fst ` set m"
  using set_map_delete [of k m] by (rule image_mono)

lemma length_map_delete: "length (map_delete k m) \<le> length m"
  by (induction m) auto

lemma distinct_map_delete: "distinct (map fst m) \<Longrightarrow> distinct (map fst (map_delete k m))"
proof (induction m)
  case (Cons p m)
  then show ?case using keys_map_delete [of k m] by (cases p) auto
qed simp

lemma map_get_map_delete:
  "distinct (map fst m) \<Longrightarrow> map_get (map_delete k m) k' = (if k' = k then None else map_get m k')"
proof (induction m)
  case (Cons p m)
  then show ?case by (cases p) (auto simp: map_get_None_iff dest: key_in_image)
qed simp

text \<open>Adding a value with a new attribute keeps the attributes of the values distinct.\<close>

lemma distinct_attr_map_set:
  assumes "distinct (map (\<lambda>p. f (snd p)) m)" and "f v \<notin> (\<lambda>p. f (snd p)) ` set m"
  shows "distinct (map (\<lambda>p. f (snd p)) (map_set k v m))"
  using assms
proof (induction m)
  case (Cons p m)
  obtain k' v' where p: "p = (k', v')" by (cases p)
  show ?case
  proof (cases "k' = k")
    case True
    with Cons.prems p show ?thesis by auto
  next
    case False
    have "f v' \<notin> (\<lambda>p. f (snd p)) ` set (map_set k v m)"
      using Cons.prems p set_map_set [of k v m] by auto
    with Cons False p show ?thesis by auto
  qed
qed simp

lemma distinct_attr_map_delete:
  "distinct (map (\<lambda>p. f (snd p)) m) \<Longrightarrow> distinct (map (\<lambda>p. f (snd p)) (map_delete k m))"
proof (induction m)
  case (Cons p m)
  have "(\<lambda>p. f (snd p)) ` set (map_delete k m) \<subseteq> (\<lambda>p. f (snd p)) ` set m"
    using set_map_delete [of k m] by (rule image_mono)
  with Cons show ?case by (cases p) auto
qed simp

text \<open>Replacing a stored value by one with the same attribute changes no attribute.\<close>

lemma attr_map_set_same:
  "map_get m k = Some v \<Longrightarrow> f v' = f v \<Longrightarrow>
     map (\<lambda>p. f (snd p)) (map_set k v' m) = map (\<lambda>p. f (snd p)) m"
  by (induction m) (auto split: if_splits)

lemma length_map_set_present: "map_get m k = Some v \<Longrightarrow> length (map_set k v' m) = length m"
  by (induction m) (auto split: if_splits)

lemma keys_map_set_present:
  "map_get m k = Some v \<Longrightarrow> map fst (map_set k v' m) = map fst m"
  by (induction m) (auto split: if_splits)

lemma find_filter_conv: "List.find P xs = (case filter P xs of [] \<Rightarrow> None | x # _ \<Rightarrow> Some x)"
  by (induction xs) auto

section \<open>The table allocator\<close>

lemma tables_emit [simp]: "tables (emit e db) = tables db"
  by (simp add: emit_def)

lemma menuItems_emit [simp]: "menuItems (emit e db) = menuItems db"
  by (simp add: emit_def)

lemma orders_emit [simp]: "orders (emit e db) = orders db"
  by (simp add: emit_def)

lemma tables_new_eval:
  "tables newGameDatabase =
     [(1, newTable (1, -6, -6, 4)), (2, newTable (2, 6, -6, 4)), (3, newTable (3, -6, -1, 2)),
      (4, newTable (4, 6, -1, 2)), (5, newTable (5, -6, 4, 6)), (6, newTable (6, 6, 4, 6))]"
  by (simp add: newGameDatabase_def initializeTables_def tablePositions_def)

lemma tables_reserveTable:
  "tables (fst (reserveTable db k w n)) =
     (case map_get (tables db) k of
        None \<Rightarrow> tables db
      | Some t \<Rightarrow>
          if t_isOccupied t then tables db
          else map_set k (t\<lparr>t_isOccupied := True, t_reservedBy := Some w,
                             t_reservedAt := Some n\<rparr>) (tables db))"
  by (simp add: reserveTable_def Let_def split: option.splits)

lemma scenario_order:
  assumes "map cap xs = [4, 4, 2, 2, 6, 6::int]"
    and "filter free xs = [a, b]" and "{cap a, cap b} = {4, 6}"
  shows "cap a = 4"
proof -
  obtain t1 t2 t3 t4 t5 t6 where xs: "xs = [t1, t2, t3, t4, t5, t6]"
    and c: "cap t1 = 4" "cap t2 = 4" "cap t3 = 2" "cap t4 = 2" "cap t5 = 6" "cap t6 = 6"
    using assms(1) by (auto simp: map_eq_Cons_conv)
  show ?thesis
    using assms(2,3) c unfolding xs
    by (auto simp: doubleton_eq_iff split: if_splits)
qed

lemma tables_scenarioA_db:
  "map_values (tables scenarioA_db) =
     [(newTable (1, -6, -6, 4))\<lparr>t_isOccupied := True, t_reservedBy := Some ''visitor'',
         t_reservedAt := Some 100\<rparr>,
      newTable (2, 6, -6, 4),
      (newTable (3, -6, -1, 2))\<lparr>t_isOccupied := True, t_reservedBy := Some ''visitor'',
         t_reservedAt := Some 200\<rparr>,
      (newTable (4, 6, -1, 2))\<lparr>t_isOccupied := True, t_reservedBy := Some ''visitor'',
         t_reservedAt := Some 300\<rparr>,
      (newTable (5, -6, 4, 6))\<lparr>t_isOccupied := True, t_reservedBy := Some ''visitor'',
         t_reservedAt := Some 400\<rparr>,
      newTable (6, 6, 4, 6)]"
  by (simp add: scenarioA_db_def tables_reserveTable tables_new_eval map_values_def newTable_def)

text \<open>
  C3. \<open>findAvailableTable\<close> returns null exactly when no table is free with enough seats;
  otherwise it returns the first such table in the iteration order of the table map, so the
  result is never occupied and never too small. In every database with the static layout
  in which exactly one table of capacity 4 and one of capacity 6 are free, a request for 2
  seats gets the table of capacity 4. The scan is first-fit, not best-fit: in the fresh
  database a request for 2 seats gets a table of capacity 4 although tables of capacity 2
  are free.
\<close>

theorem findAvailableTable_first_fit:
  "(findAvailableTable db n = None \<longleftrightarrow>
      (\<forall>t \<in> set (getTables db). t_isOccupied t \<or> t_capacity t < n))
   \<and> (\<forall>t. findAvailableTable db n = Some t \<longrightarrow>
         \<not> t_isOccupied t \<and> t_capacity t \<ge> n \<and>
         (\<exists>i < length (getTables db). getTables db ! i = t \<and>
            (\<forall>j < i. t_isOccupied (getTables db ! j) \<or> t_capacity (getTables db ! j) < n)))
   \<and> (map t_capacity (getTables db) = map t_capacity (getTables newGameDatabase) \<and>
       (\<exists>a b. filter (\<lambda>t. \<not> t_isOccupied t) (getTables db) = [a, b] \<and>
              {t_capacity a, t_capacity b} = {4, 6}) \<longrightarrow>
         (\<exists>t. findAvailableTable db 2 = Some t \<and> t_capacity t = 4))
   \<and> (\<exists>t. findAvailableTable newGameDatabase 2 = Some t \<and> t_capacity t = 4 \<and>
          (\<exists>t' \<in> set (getTables newGameDatabase). \<not> t_isOccupied t' \<and> t_capacity t' = 2))"
proof (intro conjI allI impI)
  show "findAvailableTable db n = None \<longleftrightarrow>
      (\<forall>t \<in> set (getTables db). t_isOccupied t \<or> t_capacity t < n)"
    by (auto simp: findAvailableTable_def getTables_def find_None_iff)
next
  fix t assume "findAvailableTable db n = Some t"
  then show "\<not> t_isOccupied t" "t_capacity t \<ge> n"
    "\<exists>i < length (getTables db). getTables db ! i = t \<and>
            (\<forall>j < i. t_isOccupied (getTables db ! j) \<or> t_capacity (getTables db ! j) < n)"
    unfolding findAvailableTable_def getTables_def find_Some_iff
    by (auto simp: not_le)
next
  assume a: "map t_capacity (getTables db) = map t_capacity (getTables newGameDatabase) \<and>
       (\<exists>a b. filter (\<lambda>t. \<not> t_isOccupied t) (getTables db) = [a, b] \<and>
              {t_capacity a, t_capacity b} = {4, 6})"
  then obtain a b where ab: "filter (\<lambda>t. \<not> t_isOccupied t) (getTables db) = [a, b]"
    and caps: "{t_capacity a, t_capacity b} = {4, 6}" by blast
  have layout: "map t_capacity (getTables db) = [4, 4, 2, 2, 6, 6]"
    using a by (simp add: getTables_def tables_new_eval newTable_def map_values_def)
  have "t_capacity a = 4"
    using layout ab caps by (rule scenario_order)
  moreover have "filter (\<lambda>t. \<not> t_isOccupied t \<and> 2 \<le> t_capacity t) (getTables db) = [a, b]"
  proof -
    have "filter (\<lambda>t. \<not> t_isOccupied t \<and> 2 \<le> t_capacity t) (getTables db)
        = filter (\<lambda>t. 2 \<le> t_capacity t) (filter (\<lambda>t. \<not> t_isOccupied t) (getTables db))"
      by (simp add: conj_commute)
    also have "\<dots> = [a, b]" using caps unfolding ab by (auto simp: doubleton_eq_iff)
    finally show ?thesis .
  qed
  ultimately show "\<exists>t. findAvailableTable db 2 = Some t \<and> t_capacity t = 4"
    by (simp add: findAvailableTable_def find_filter_conv getTables_def)
next
  show "\<exists>t. findAvailableTable newGameDatabase 2 = Some t \<and> t_capacity t = 4 \<and>
          (\<exists>t' \<in> set (getTables newGameDatabase). \<not> t_isOccupied t' \<and> t_capacity t' = 2)"
    by (simp add: findAvailableTable_def getTables_def tables_new_eval newTable_def map_values_def)
qed

theorem findAvailableTable_first_fit_witness:
  "map t_capacity (getTables scenarioA_db) = map t_capacity (getTables newGameDatabase)
   \<and> (\<exists>a b. filter (\<lambda>t. \<not> t_isOccupied t) (getTables scenarioA_db) = [a, b] \<and>
              {t_capacity a, t_capacity b} = {4, 6})
   \<and> (\<exists>t. findAvailableTable scenarioA_db 2 = Some t \<and> t_capacity t = 4)"
proof -
  have h1: "map t_capacity (getTables scenarioA_db) = map t_capacity (getTables newGameDatabase)"
    by (simp add: getTables_def tables_scenarioA_db tables_new_eval)
       (simp add: map_values_def newTable_def)
  have h2: "\<exists>a b. filter (\<lambda>t. \<not> t_isOccupied t) (getTables scenarioA_db) = [a, b] \<and>
              {t_capacity a, t_capacity b} = {4, 6}"
    by (simp add: getTables_def tables_scenarioA_db) (simp add: newTable_def)
  from h1 h2 findAvailableTable_first_fit [of scenarioA_db 2]
  show ?thesis by blast
qed

section \<open>The order ledger and the inventory\<close>

lemma foldl_add_sum_list:
  "foldl (\<lambda>sum item. sum + f item) (a::int) items = a + sum_list (map f items)"
  by (induction items arbitrary: a) auto

lemma checkAvailability_iff:
  "checkAvailability db items \<longleftrightarrow>
     (\<forall>item \<in> set items. \<exists>m. findMenuItem db (q_name item) = Some m \<and> q_quantity item \<le> m_available m)"
  by (induction items) (auto split: option.splits)

text \<open>
  C4. \<open>createOrder\<close> returns null, and leaves the database as it was, whenever the table
  does not exist or is not occupied. On an occupied table it returns an order that is
  pending, whose total price is the sum of the prices of the submitted lines (each already
  multiplied by its quantity), and whose estimated time is the sum over the lines of the
  cooking time of the line's menu item times its quantity (a line whose name is not on the
  menu adds nothing); the order is stored under its id.
\<close>

theorem createOrder_spec:
  "((map_get (tables db) tableId = None \<or>
      (\<exists>table. map_get (tables db) tableId = Some table \<and> \<not> t_isOccupied table)) \<longrightarrow>
       createOrder db tableId items orderId now = (db, None))
   \<and> (\<forall>table. map_get (tables db) tableId = Some table \<and> t_isOccupied table \<longrightarrow>
        (\<exists>order. snd (createOrder db tableId items orderId now) = Some order
           \<and> o_status order = Pending
           \<and> o_id order = orderId \<and> o_tableId order = tableId \<and> o_items order = items
           \<and> o_totalPrice order = sum_list (map i_price items)
           \<and> o_estimatedTime order =
               (\<Sum>item\<leftarrow>items. case findMenuItem db (i_name item) of
                                  Some m \<Rightarrow> m_cookingTime m * i_quantity item
                                | None \<Rightarrow> 0)
           \<and> ((\<forall>item \<in> set items. findMenuItem db (i_name item) \<noteq> None) \<longrightarrow>
                o_estimatedTime order =
                  (\<Sum>item\<leftarrow>items. m_cookingTime (the (findMenuItem db (i_name item))) * i_quantity item))
           \<and> map_get (orders (fst (createOrder db tableId items orderId now))) orderId = Some order))"
proof (intro conjI allI impI)
  assume "map_get (tables db) tableId = None \<or>
      (\<exists>table. map_get (tables db) tableId = Some table \<and> \<not> t_isOccupied table)"
  then show "createOrder db tableId items orderId now = (db, None)"
    by (auto simp: createOrder_def)
next
  fix table assume t: "map_get (tables db) tableId = Some table \<and> t_isOccupied table"
  have eq: "(\<Sum>item\<leftarrow>items. case findMenuItem db (i_name item) of
                                  Some m \<Rightarrow> m_cookingTime m * i_quantity item
                                | None \<Rightarrow> 0) =
     (\<Sum>item\<leftarrow>items. m_cookingTime (the (findMenuItem db (i_name item))) * i_quantity item)"
    if "\<forall>item \<in> set items. findMenuItem db (i_name item) \<noteq> None"
    using that by (intro arg_cong[where f = sum_list] map_cong) auto
  from t show "\<exists>order. snd (createOrder db tableId items orderId now) = Some order
           \<and> o_status order = Pending
           \<and> o_id order = orderId \<and> o_tableId order = tableId \<and> o_items order = items
           \<and> o_totalPrice order = sum_list (map i_price items)
           \<and> o_estimatedTime order =
               (\<Sum>item\<leftarrow>items. case findMenuItem db (i_name item) of
                                  Some m \<Rightarrow> m_cookingTime m * i_quantity item
                                | None \<Rightarrow> 0)
           \<and> ((\<forall>item \<in> set items. findMenuItem db (i_name item) \<noteq> None) \<longrightarrow>
                o_estimatedTime order =
                  (\<Sum>item\<leftarrow>items. m_cookingTime (the (findMenuItem db (i_name item))) * i_quantity item))
           \<and> map_get (orders (fst (createOrder db tableId items orderId now))) orderId = Some order"
    using eq by (simp add: createOrder_def Let_def foldl_add_sum_list map_get_map_set)
qed

text \<open>
  C5. The availability check passes exactly when every line of the batch names a menu item
  whose stock covers the line's quantity. If some line names no menu item or asks for more
  than is in stock, the check fails and \<open>updateInventory\<close> returns false with the
  database unchanged: no line is decremented. A change of the stock therefore implies that
  the check passed for the whole batch. Scenario B is an instance.
\<close>

theorem updateInventory_all_or_nothing:
  "(checkAvailability db items \<longleftrightarrow>
      (\<forall>item \<in> set items. \<exists>m. findMenuItem db (q_name item) = Some m \<and>
                                  q_quantity item \<le> m_available m))
   \<and> ((\<exists>item \<in> set items. findMenuItem db (q_name item) = None \<or>
           (\<exists>m. findMenuItem db (q_name item) = Some m \<and> m_available m < q_quantity item)) \<longrightarrow>
        \<not> checkAvailability db items \<and> updateInventory db items = (db, False))
   \<and> (menuItems (fst (updateInventory db items)) \<noteq> menuItems db \<longrightarrow> checkAvailability db items)
   \<and> snd (updateInventory db items) = checkAvailability db items"
  unfolding checkAvailability_iff
  by (auto simp: updateInventory_def checkAvailability_iff)


lemma menuItems_new_eval:
  "menuItems newGameDatabase = map (\<lambda>m. (m_id m, m)) menu_list"
  by (simp add: newGameDatabase_def initializeMenu_def menu_list_def)

lemma burger_scenarioB:
  "findMenuItem scenarioB_db ''Burger'' = Some ((hd menu_list)\<lparr>m_available := 2\<rparr>)"
  by (simp add: scenarioB_db_def updateInventory_def findMenuItem_def decrementItem_def
      decrementFirst_def menuItems_new_eval map_values_def menu_list_def)

theorem updateInventory_all_or_nothing_witness:
  "findMenuItem scenarioB_db ''Burger'' = Some ((hd menu_list)\<lparr>m_available := 2\<rparr>)
   \<and> m_available ((hd menu_list)\<lparr>m_available := 2\<rparr>) < 3
   \<and> \<not> checkAvailability scenarioB_db [\<lparr>q_name = ''Burger'', q_quantity = 3\<rparr>]
   \<and> updateInventory scenarioB_db [\<lparr>q_name = ''Burger'', q_quantity = 3\<rparr>] = (scenarioB_db, False)"
proof -
  have "\<exists>item \<in> set [\<lparr>q_name = ''Burger'', q_quantity = 3\<rparr>].
          findMenuItem scenarioB_db (q_name item) = None \<or>
          (\<exists>m. findMenuItem scenarioB_db (q_name item) = Some m \<and> m_available m < q_quantity item)"
    by (simp add: burger_scenarioB)
  with updateInventory_all_or_nothing [of scenarioB_db "[\<lparr>q_name = ''Burger'', q_quantity = 3\<rparr>]"]
  show ?thesis by (simp add: burger_scenarioB)
qed

lemma table3_occupied_db:
  "map_get (tables occupied_db) 3 =
     Some ((newTable (3, -6, -1, 2))\<lparr>t_isOccupied := True, t_reservedBy := Some ''visitor'',
             t_reservedAt := Some 1000\<rparr>)"
  by (simp add: occupied_db_def tables_reserveTable tables_new_eval newTable_def)

lemma menu_occupied_db: "map_values (menuItems occupied_db) = menu_list"
  by (simp add: occupied_db_def reserveTable_def tables_new_eval newTable_def Let_def
       menuItems_new_eval map_values_def menu_list_def)

theorem createOrder_spec_witness:
  "createOrder newGameDatabase 3
      [\<lparr>i_name = ''Burger'', i_quantity = 2, i_price = 30\<rparr>,
       \<lparr>i_name = ''Cold Coffee'', i_quantity = 1, i_price = 8\<rparr>] ''order_1'' 2000
     = (newGameDatabase, None)
   \<and> (\<exists>order. snd (createOrder occupied_db 3
            [\<lparr>i_name = ''Burger'', i_quantity = 2, i_price = 30\<rparr>,
             \<lparr>i_name = ''Cold Coffee'', i_quantity = 1, i_price = 8\<rparr>] ''order_1'' 2000) = Some order
          \<and> o_status order = Pending \<and> o_totalPrice order = 38 \<and> o_estimatedTime order = 19)"
proof -
  let ?items = "[\<lparr>i_name = ''Burger'', i_quantity = 2, i_price = 30\<rparr>,
                 \<lparr>i_name = ''Cold Coffee'', i_quantity = 1, i_price = 8\<rparr>]"
  have free: "\<exists>table. map_get (tables newGameDatabase) 3 = Some table \<and> \<not> t_isOccupied table"
    by (simp add: tables_new_eval newTable_def)
  have occ: "map_get (tables occupied_db) 3 =
       Some ((newTable (3, -6, -1, 2))\<lparr>t_isOccupied := True, t_reservedBy := Some ''visitor'',
             t_reservedAt := Some 1000\<rparr>)
     \<and> t_isOccupied ((newTable (3, -6, -1, 2))\<lparr>t_isOccupied := True,
             t_reservedBy := Some ''visitor'', t_reservedAt := Some 1000\<rparr>)"
    by (simp add: table3_occupied_db)
  have menu: "findMenuItem occupied_db ''Burger'' = Some (menu_list ! 0)"
    "findMenuItem occupied_db ''Cold Coffee'' = Some (menu_list ! 2)"
    by (simp_all add: findMenuItem_def menu_occupied_db) (simp_all add: menu_list_def)
  have onmenu: "\<forall>item \<in> set ?items. findMenuItem occupied_db (i_name item) \<noteq> None"
    by (simp add: menu)
  from createOrder_spec [of newGameDatabase 3 ?items "''order_1''" 2000] free
  have a: "createOrder newGameDatabase 3 ?items ''order_1'' 2000 = (newGameDatabase, None)"
    by blast
  from createOrder_spec [of occupied_db 3 ?items "''order_1''" 2000] occ onmenu
  obtain order where o: "snd (createOrder occupied_db 3 ?items ''order_1'' 2000) = Some order"
    "o_status order = Pending" "o_totalPrice order = sum_list (map i_price ?items)"
    "o_estimatedTime order =
       (\<Sum>item\<leftarrow>?items. m_cookingTime (the (findMenuItem occupied_db (i_name item))) * i_quantity item)"
    by blast
  have "o_totalPrice order = 38" using o(3) by simp
  moreover have "o_estimatedTime order = 19" using o(4) by (simp add: menu menu_list_def)
  ultimately show ?thesis using a o(1,2) by blast
qed

section \<open>The room store keeps its invariant\<close>

lemma players_ok_join:
  assumes "players_ok f ps" and "\<not> 2 \<le> length ps" and "\<not> list_ex (\<lambda>p. f p = f v) (map snd ps)"
  shows "players_ok f (map_set k v ps)"
proof -
  have "f v \<notin> (\<lambda>p. f (snd p)) ` set ps"
    using assms(3) by (auto simp: list_ex_iff)
  then have "distinct (map (\<lambda>p. f (snd p)) (map_set k v ps))"
    using assms(1) by (intro distinct_attr_map_set) (auto simp: players_ok_def)
  moreover have "length (map_set k v ps) \<le> 2"
    using length_map_set [of k v ps] assms(2) by simp
  ultimately show ?thesis
    using assms(1) by (simp add: players_ok_def distinct_map_set)
qed

lemma players_ok_move:
  assumes "players_ok f ps" and "map_get ps k = Some v" and "f v' = f v"
  shows "players_ok f (map_set k v' ps)"
  using assms
  by (simp add: players_ok_def attr_map_set_same length_map_set_present keys_map_set_present)

lemma players_ok_delete: "players_ok f ps \<Longrightarrow> players_ok f (map_delete k ps)"
  using length_map_delete [of k ps]
  by (simp add: players_ok_def distinct_map_delete distinct_attr_map_delete)

lemma rooms_ok_get: "rooms_ok rooms \<Longrightarrow> map_get rooms k = Some room \<Longrightarrow> players_ok p_role (r_players room)"
  by (auto simp: rooms_ok_def list_all_iff dest!: map_get_Some_mem)

lemma rooms_ok_set:
  "rooms_ok rooms \<Longrightarrow> players_ok p_role (r_players room) \<Longrightarrow> rooms_ok (map_set k room rooms)"
  using set_map_set [of k room rooms]
  by (auto simp: rooms_ok_def list_all_iff distinct_map_set)

lemma rooms_ok_delete: "rooms_ok rooms \<Longrightarrow> rooms_ok (map_delete k rooms)"
  using set_map_delete [of k rooms]
  by (auto simp: rooms_ok_def list_all_iff distinct_map_delete)

lemma r_players_initializeRoomTables [simp]:
  "r_players (initializeRoomTables room) = r_players room"
  by (simp add: initializeRoomTables_def)

lemma rooms_ok_join_room:
  assumes "rooms_ok rooms"
  shows "rooms_ok (fst (join_room sid roomId role username now rooms))"
proof (cases "map_get rooms roomId")
  case None
  let ?room = "initializeRoomTables
       \<lparr>r_id = roomId, r_players = [], r_orders = [], r_tables = [], r_createdAt = now\<rparr>"
  have ok0: "players_ok p_role (r_players ?room)" by (simp add: players_ok_def)
  then have ok1: "rooms_ok (map_set roomId ?room rooms)" using assms by (rule rooms_ok_set[rotated])
  have "players_ok p_role (map_set sid v (r_players ?room))" for v
    by (simp add: players_ok_def)
  then show ?thesis
    using None ok1
    by (auto simp: join_room_def Let_def map_size_def map_values_def intro!: rooms_ok_set)
next
  case (Some room)
  then have ok: "players_ok p_role (r_players room)" using assms by (auto dest: rooms_ok_get)
  show ?thesis
    using Some assms ok
    by (auto simp: join_room_def Let_def map_size_def map_values_def
          intro!: rooms_ok_set players_ok_join)
qed

lemma rooms_ok_set_same_players:
  "rooms_ok rooms \<Longrightarrow> map_get rooms k = Some room \<Longrightarrow> r_players room' = r_players room \<Longrightarrow>
     rooms_ok (map_set k room' rooms)"
  by (auto intro!: rooms_ok_set dest: rooms_ok_get)

lemma rooms_ok_player_move: "rooms_ok rooms \<Longrightarrow> rooms_ok (fst (player_move sid roomId pos rot rooms))"
  by (auto simp: player_move_def split: option.splits
        intro!: rooms_ok_set players_ok_move dest: rooms_ok_get)

lemma rooms_ok_book_table: "rooms_ok rooms \<Longrightarrow> rooms_ok (fst (book_table sid roomId n rooms))"
  by (auto simp: book_table_def split: option.splits intro: rooms_ok_set_same_players)

lemma rooms_ok_place_order:
  "rooms_ok rooms \<Longrightarrow> rooms_ok (fst (place_order sid roomId items tableId now now' rooms))"
  by (auto simp: place_order_def Let_def split: option.splits intro: rooms_ok_set_same_players)

lemma rooms_ok_order_status_update:
  "rooms_ok rooms \<Longrightarrow> rooms_ok (fst (order_status_update sid roomId orderId status rooms))"
  by (auto simp: order_status_update_def Let_def split: option.splits
        intro: rooms_ok_set_same_players)

lemma rooms_ok_order_completed:
  "rooms_ok rooms \<Longrightarrow> rooms_ok (fst (order_completed sid roomId orderId t b rooms))"
  by (auto simp: order_completed_def split: option.splits intro: rooms_ok_set_same_players)

lemma rooms_ok_end_session: "rooms_ok rooms \<Longrightarrow> rooms_ok (fst (end_session sid roomId now rooms))"
  by (auto simp: end_session_def Let_def split: option.splits intro: rooms_ok_delete)

lemma keys_disconnect: "fst ` set (fst (disconnect sid rooms)) \<subseteq> fst ` set rooms"
proof (induction rooms)
  case (Cons e rooms)
  obtain k room where e: "e = (k, room)" by (cases e)
  obtain rest es where d: "disconnect sid rooms = (rest, es)" by (cases "disconnect sid rooms")
  with Cons have "fst ` set rest \<subseteq> fst ` set rooms" by simp
  then show ?case unfolding e by (auto simp: d Let_def)
qed simp

lemma rooms_ok_disconnect: "rooms_ok rooms \<Longrightarrow> rooms_ok (fst (disconnect sid rooms))"
proof (induction rooms)
  case (Cons e rooms)
  obtain k room where e: "e = (k, room)" by (cases e)
  from Cons.prems e have tl: "rooms_ok rooms" and hd: "players_ok p_role (r_players room)"
    and k: "k \<notin> fst ` set rooms"
    by (auto simp: rooms_ok_def)
  from Cons.IH tl have ih: "rooms_ok (fst (disconnect sid rooms))" .
  have k': "k \<notin> fst ` set (fst (disconnect sid rooms))"
    using k keys_disconnect [of sid rooms] by blast
  have del: "players_ok p_role (map_delete sid (r_players room))"
    using hd by (rule players_ok_delete)
  show ?case
    using ih k' hd del unfolding e
    by (auto simp: rooms_ok_def Let_def split: prod.splits)
qed (simp add: rooms_ok_def)

lemma rooms_ok_handle: "rooms_ok rooms \<Longrightarrow> rooms_ok (fst (handle sid now now' ev rooms))"
  by (cases ev)
     (simp_all add: rooms_ok_join_room rooms_ok_player_move rooms_ok_book_table
        rooms_ok_place_order rooms_ok_order_status_update rooms_ok_order_completed
        rooms_ok_end_session rooms_ok_disconnect player_action_def submit_rating_def
        tutorial_completed_def visitor_sat_down_def menu_requested_def split: option.splits)

lemma reachable_rooms_ok: "reachable rooms \<Longrightarrow> rooms_ok rooms"
proof (induction rule: reachable.induct)
  case reachable_init
  show ?case by (simp add: rooms_ok_def)
next
  case (reachable_step rooms sid now now' ev)
  then show ?case by (simp add: rooms_ok_handle)
qed

section \<open>Room capacity and role uniqueness\<close>

lemma server_rooms_ok_get:
  "server_rooms_ok rooms \<Longrightarrow> map_get rooms k = Some room \<Longrightarrow> players_ok sp_role (sr_players room)"
  by (auto simp: server_rooms_ok_def list_all_iff dest!: map_get_Some_mem)

lemma server_rooms_ok_set:
  "server_rooms_ok rooms \<Longrightarrow> players_ok sp_role (sr_players room) \<Longrightarrow>
     server_rooms_ok (map_set k room rooms)"
  using set_map_set [of k room rooms]
  by (auto simp: server_rooms_ok_def list_all_iff distinct_map_set)

lemma server_rooms_ok_join_room:
  assumes "server_rooms_ok rooms"
  shows "server_rooms_ok (fst (server_join_room sid roomId role username now rooms))"
proof (cases "map_get rooms roomId")
  case None
  let ?room = "\<lparr>sr_id = roomId, sr_players = [], sr_createdAt = now\<rparr>"
  have "players_ok sp_role (sr_players ?room)" by (simp add: players_ok_def)
  then have ok1: "server_rooms_ok (map_set roomId ?room rooms)"
    using assms by (rule server_rooms_ok_set[rotated])
  have "players_ok sp_role (map_set sid v (sr_players ?room))" for v
    by (simp add: players_ok_def)
  then show ?thesis
    using None ok1
    by (auto simp: server_join_room_def Let_def map_size_def map_values_def
          intro!: server_rooms_ok_set)
next
  case (Some room)
  then have ok: "players_ok sp_role (sr_players room)"
    using assms by (auto dest: server_rooms_ok_get)
  show ?thesis
    using Some assms ok
    by (auto simp: server_join_room_def Let_def map_size_def map_values_def
          intro!: server_rooms_ok_set players_ok_join)
qed

lemma server_rooms_ok_player_move:
  "server_rooms_ok rooms \<Longrightarrow> server_rooms_ok (fst (server_player_move sid roomId pos rot rooms))"
  by (auto simp: server_player_move_def split: option.splits
        intro!: server_rooms_ok_set players_ok_move dest: server_rooms_ok_get)

lemma keys_server_disconnect:
  "fst ` set (fst (server_disconnect sid rooms)) \<subseteq> fst ` set rooms"
proof (induction rooms)
  case (Cons e rooms)
  obtain k room where e: "e = (k, room)" by (cases e)
  obtain rest es where d: "server_disconnect sid rooms = (rest, es)"
    by (cases "server_disconnect sid rooms")
  with Cons have "fst ` set rest \<subseteq> fst ` set rooms" by simp
  then show ?case unfolding e by (auto simp: d Let_def)
qed simp

lemma server_rooms_ok_disconnect:
  "server_rooms_ok rooms \<Longrightarrow> server_rooms_ok (fst (server_disconnect sid rooms))"
proof (induction rooms)
  case (Cons e rooms)
  obtain k room where e: "e = (k, room)" by (cases e)
  from Cons.prems e have tl: "server_rooms_ok rooms"
    and hd: "players_ok sp_role (sr_players room)" and k: "k \<notin> fst ` set rooms"
    by (auto simp: server_rooms_ok_def)
  from Cons.IH tl have ih: "server_rooms_ok (fst (server_disconnect sid rooms))" .
  have k': "k \<notin> fst ` set (fst (server_disconnect sid rooms))"
    using k keys_server_disconnect [of sid rooms] by blast
  have del: "players_ok sp_role (map_delete sid (sr_players room))"
    using hd by (rule players_ok_delete)
  show ?case
    using ih k' hd del unfolding e
    by (auto simp: server_rooms_ok_def Let_def split: prod.splits)
qed (simp add: server_rooms_ok_def)

lemma server_rooms_ok_handle:
  "server_rooms_ok rooms \<Longrightarrow> server_rooms_ok (fst (server_handle sid now ev rooms))"
  by (cases ev)
     (simp_all add: server_rooms_ok_join_room server_rooms_ok_player_move
        server_rooms_ok_disconnect server_player_action_def)

lemma server_reachable_rooms_ok: "server_reachable rooms \<Longrightarrow> server_rooms_ok rooms"
proof (induction rule: server_reachable.induct)
  case server_reachable_init
  show ?case by (simp add: server_rooms_ok_def)
next
  case (server_reachable_step rooms sid now ev)
  then show ?case by (simp add: server_rooms_ok_handle)
qed

text \<open>
  C1. In every state that the room store can reach, in the relay handler and in the
  standalone server alike, every room holds at most 2 players and no role twice. A
  \<open>join-room\<close> for a room that holds 2 players is answered with \<open>room-full\<close>, and one for a
  room with fewer than 2 players in which the requested role is present is answered with
  \<open>role-taken\<close> (the capacity test comes first); in both cases the whole store, and so
  the room's player map, is left as it was. Hence a join with a role that is present is
  always rejected, by one of the two answers, and changes nothing.
\<close>

theorem room_capacity_and_roles:
  "(reachable rooms \<longrightarrow>
      (\<forall>(roomId, room) \<in> set rooms.
          map_size (r_players room) \<le> 2 \<and>
          distinct (map p_role (map_values (r_players room)))))
   \<and> (\<forall>room. map_get rooms roomId = Some room \<and> map_size (r_players room) \<ge> 2 \<longrightarrow>
         join_room sid roomId role username now rooms = (rooms, [Emit sid RoomFull]))
   \<and> (\<forall>room. map_get rooms roomId = Some room \<and> map_size (r_players room) < 2 \<and>
              role \<in> p_role ` set (map_values (r_players room)) \<longrightarrow>
         join_room sid roomId role username now rooms = (rooms, [Emit sid RoleTaken]))
   \<and> (\<forall>room. map_get rooms roomId = Some room \<and>
              role \<in> p_role ` set (map_values (r_players room)) \<longrightarrow>
         fst (join_room sid roomId role username now rooms) = rooms \<and>
         (snd (join_room sid roomId role username now rooms) = [Emit sid RoomFull] \<or>
          snd (join_room sid roomId role username now rooms) = [Emit sid RoleTaken]))
   \<and> (server_reachable srooms \<longrightarrow>
      (\<forall>(roomId, room) \<in> set srooms.
          map_size (sr_players room) \<le> 2 \<and>
          distinct (map sp_role (map_values (sr_players room)))))
   \<and> (\<forall>room. map_get srooms roomId = Some room \<and> map_size (sr_players room) \<ge> 2 \<longrightarrow>
         server_join_room sid roomId srole username now srooms = (srooms, [SEmit sid SRoomFull]))
   \<and> (\<forall>room. map_get srooms roomId = Some room \<and> map_size (sr_players room) < 2 \<and>
              srole \<in> sp_role ` set (map_values (sr_players room)) \<longrightarrow>
         server_join_room sid roomId srole username now srooms = (srooms, [SEmit sid SRoleTaken]))
   \<and> (\<forall>room. map_get srooms roomId = Some room \<and>
              srole \<in> sp_role ` set (map_values (sr_players room)) \<longrightarrow>
         fst (server_join_room sid roomId srole username now srooms) = srooms \<and>
         (snd (server_join_room sid roomId srole username now srooms) = [SEmit sid SRoomFull] \<or>
          snd (server_join_room sid roomId srole username now srooms) = [SEmit sid SRoleTaken]))"
proof (intro conjI allI impI)
  fix room assume a: "map_get rooms roomId = Some room \<and>
              role \<in> p_role ` set (map_values (r_players room))"
  then show "fst (join_room sid roomId role username now rooms) = rooms"
    by (auto simp: join_room_def list_ex_iff)
  from a show "snd (join_room sid roomId role username now rooms) = [Emit sid RoomFull] \<or>
          snd (join_room sid roomId role username now rooms) = [Emit sid RoleTaken]"
    by (auto simp: join_room_def list_ex_iff)
next
  fix room assume a: "map_get srooms roomId = Some room \<and>
              srole \<in> sp_role ` set (map_values (sr_players room))"
  then show "fst (server_join_room sid roomId srole username now srooms) = srooms"
    by (auto simp: server_join_room_def list_ex_iff)
  from a show "snd (server_join_room sid roomId srole username now srooms) = [SEmit sid SRoomFull] \<or>
          snd (server_join_room sid roomId srole username now srooms) = [SEmit sid SRoleTaken]"
    by (auto simp: server_join_room_def list_ex_iff)
next
  assume "reachable rooms"
  then have "rooms_ok rooms" by (rule reachable_rooms_ok)
  then show "\<forall>(roomId, room) \<in> set rooms.
          map_size (r_players room) \<le> 2 \<and> distinct (map p_role (map_values (r_players room)))"
    by (auto simp: rooms_ok_def list_all_iff players_ok_def map_size_def map_values_def comp_def)
next
  assume "server_reachable srooms"
  then have "server_rooms_ok srooms" by (rule server_reachable_rooms_ok)
  then show "\<forall>(roomId, room) \<in> set srooms.
          map_size (sr_players room) \<le> 2 \<and> distinct (map sp_role (map_values (sr_players room)))"
    by (auto simp: server_rooms_ok_def list_all_iff players_ok_def map_size_def map_values_def
          comp_def)
next
  fix room assume "map_get rooms roomId = Some room \<and> map_size (r_players room) \<ge> 2"
  then show "join_room sid roomId role username now rooms = (rooms, [Emit sid RoomFull])"
    by (simp add: join_room_def)
next
  fix room assume "map_get rooms roomId = Some room \<and> map_size (r_players room) < 2 \<and>
              role \<in> p_role ` set (map_values (r_players room))"
  then show "join_room sid roomId role username now rooms = (rooms, [Emit sid RoleTaken])"
    by (auto simp: join_room_def list_ex_iff)
next
  fix room assume "map_get srooms roomId = Some room \<and> map_size (sr_players room) \<ge> 2"
  then show "server_join_room sid roomId srole username now srooms = (srooms, [SEmit sid SRoomFull])"
    by (simp add: server_join_room_def)
next
  fix room assume "map_get srooms roomId = Some room \<and> map_size (sr_players room) < 2 \<and>
              srole \<in> sp_role ` set (map_values (sr_players room))"
  then show "server_join_room sid roomId srole username now srooms = (srooms, [SEmit sid SRoleTaken])"
    by (auto simp: server_join_room_def list_ex_iff)
qed

lemma room_one_players:
  "\<exists>room. map_get room_one ''r'' = Some room \<and> map_size (r_players room) < 2 \<and>
      Visitor \<in> p_role ` set (map_values (r_players room))"
  by (simp add: room_one_def join_room_def initializeRoomTables_def Let_def map_size_def
        map_values_def)

lemma room_two_players:
  "\<exists>room. map_get room_two ''r'' = Some room \<and> map_size (r_players room) \<ge> 2"
  by (simp add: room_two_def room_one_def join_room_def initializeRoomTables_def Let_def
        map_size_def map_values_def)

lemma server_room_one_players:
  "\<exists>room. map_get server_room_one ''r'' = Some room \<and> map_size (sr_players room) < 2 \<and>
      ''visitor'' \<in> sp_role ` set (map_values (sr_players room))"
  by (simp add: server_room_one_def server_join_room_def Let_def map_size_def map_values_def)

lemma server_room_two_players:
  "\<exists>room. map_get server_room_two ''r'' = Some room \<and> map_size (sr_players room) \<ge> 2"
  by (simp add: server_room_two_def server_room_one_def server_join_room_def Let_def
        map_size_def map_values_def)

theorem room_capacity_and_roles_witness:
  "reachable room_two
   \<and> (\<exists>room. map_get room_two ''r'' = Some room \<and> map_size (r_players room) \<le> 2 \<and>
          distinct (map p_role (map_values (r_players room))))
   \<and> join_room ''s3'' ''r'' Visitor ''eve'' 3 room_two = (room_two, [Emit ''s3'' RoomFull])
   \<and> join_room ''s3'' ''r'' Visitor ''eve'' 3 room_one = (room_one, [Emit ''s3'' RoleTaken])
   \<and> server_reachable server_room_two
   \<and> (\<exists>room. map_get server_room_two ''r'' = Some room \<and> map_size (sr_players room) \<le> 2 \<and>
          distinct (map sp_role (map_values (sr_players room))))
   \<and> server_join_room ''s3'' ''r'' ''visitor'' ''eve'' 3 server_room_two =
         (server_room_two, [SEmit ''s3'' SRoomFull])
   \<and> server_join_room ''s3'' ''r'' ''visitor'' ''eve'' 3 server_room_one =
         (server_room_one, [SEmit ''s3'' SRoleTaken])"
proof -
  have r2: "reachable room_two"
    unfolding room_two_def room_one_def by (intro reachable_step reachable_init)
  have s2: "server_reachable server_room_two"
    unfolding server_room_two_def server_room_one_def
    by (intro server_reachable_step server_reachable_init)
  note t2 = room_capacity_and_roles [of room_two "''r''" "''s3''" Visitor "''eve''" 3
      server_room_two "''visitor''"]
  note t1 = room_capacity_and_roles [of room_one "''r''" "''s3''" Visitor "''eve''" 3
      server_room_one "''visitor''"]
  note inv2 = t2 [THEN conjunct1, THEN mp, OF r2]
  note full2 = t2 [THEN conjunct2, THEN conjunct1, rule_format]
  note taken1 = t1 [THEN conjunct2, THEN conjunct2, THEN conjunct1, rule_format]
  note sinv2 = t2 [THEN conjunct2, THEN conjunct2, THEN conjunct2, THEN conjunct2,
      THEN conjunct1, THEN mp, OF s2]
  note sfull2 = t2 [THEN conjunct2, THEN conjunct2, THEN conjunct2, THEN conjunct2,
      THEN conjunct2, THEN conjunct1, rule_format]
  note staken1 = t1 [THEN conjunct2, THEN conjunct2, THEN conjunct2, THEN conjunct2,
      THEN conjunct2, THEN conjunct2, THEN conjunct1, rule_format]
  from room_two_players obtain room where
    room: "map_get room_two ''r'' = Some room" "map_size (r_players room) \<ge> 2"
    by (elim exE conjE)
  from room(1) have mem: "(''r'', room) \<in> set room_two" by (rule map_get_Some_mem)
  have inv: "map_size (r_players room) \<le> 2 \<and>
      distinct (map p_role (map_values (r_players room)))"
    using inv2 [THEN bspec, OF mem] by simp
  from server_room_two_players obtain sroom where
    sroom: "map_get server_room_two ''r'' = Some sroom" "map_size (sr_players sroom) \<ge> 2"
    by (elim exE conjE)
  from sroom(1) have smem: "(''r'', sroom) \<in> set server_room_two" by (rule map_get_Some_mem)
  have sinv: "map_size (sr_players sroom) \<le> 2 \<and>
      distinct (map sp_role (map_values (sr_players sroom)))"
    using sinv2 [THEN bspec, OF smem] by simp
  have full: "join_room ''s3'' ''r'' Visitor ''eve'' 3 room_two =
      (room_two, [Emit ''s3'' RoomFull])"
    using room by (intro full2 conjI)
  have sfull: "server_join_room ''s3'' ''r'' ''visitor'' ''eve'' 3 server_room_two =
      (server_room_two, [SEmit ''s3'' SRoomFull])"
    using sroom by (intro sfull2 conjI)
  from room_one_players obtain room1 where room1:
      "map_get room_one ''r'' = Some room1 \<and> map_size (r_players room1) < 2 \<and>
       Visitor \<in> p_role ` set (map_values (r_players room1))" ..
  have taken: "join_room ''s3'' ''r'' Visitor ''eve'' 3 room_one =
      (room_one, [Emit ''s3'' RoleTaken])"
    using room1 by (rule taken1)
  from server_room_one_players obtain sroom1 where sroom1:
      "map_get server_room_one ''r'' = Some sroom1 \<and> map_size (sr_players sroom1) < 2 \<and>
       ''visitor'' \<in> sp_role ` set (map_values (sr_players sroom1))" ..
  have staken: "server_join_room ''s3'' ''r'' ''visitor'' ''eve'' 3 server_room_one =
      (server_room_one, [SEmit ''s3'' SRoleTaken])"
    using sroom1 by (rule staken1)
  have e: "\<exists>room. map_get room_two ''r'' = Some room \<and> map_size (r_players room) \<le> 2 \<and>
          distinct (map p_role (map_values (r_players room)))"
    using room(1) inv by (intro exI [of _ room] conjI) simp_all
  have se: "\<exists>room. map_get server_room_two ''r'' = Some room \<and>
          map_size (sr_players room) \<le> 2 \<and>
          distinct (map sp_role (map_values (sr_players room)))"
    using sroom(1) sinv by (intro exI [of _ sroom] conjI) simp_all
  show ?thesis
    by (rule conjI [OF r2 conjI [OF e conjI [OF full conjI [OF taken conjI [OF s2
          conjI [OF se conjI [OF sfull staken]]]]]]])
qed

section \<open>Room teardown and order placement in the relay handler\<close>

lemma map_get_disconnect:
  "distinct (map fst rooms) \<Longrightarrow>
     map_get (fst (disconnect sid rooms)) k =
       (case map_get rooms k of
          None \<Rightarrow> None
        | Some room \<Rightarrow>
            if map_has (r_players room) sid then
              (if map_size (map_delete sid (r_players room)) = 0 then None
               else Some (room\<lparr>r_players := map_delete sid (r_players room)\<rparr>))
            else Some room)"
proof (induction rooms)
  case (Cons e rooms)
  obtain k' room where e: "e = (k', room)" by (cases e)
  obtain rest es where d: "disconnect sid rooms = (rest, es)" by (cases "disconnect sid rooms")
  from Cons.prems e have k': "k' \<notin> fst ` set rooms" and dist: "distinct (map fst rooms)"
    by auto
  have "k' \<notin> fst ` set rest"
    using k' keys_disconnect [of sid rooms] d by auto
  then have none: "map_get rest k' = None" by (simp add: map_get_None_iff)
  from Cons.IH [OF dist] d have ih: "map_get rest k =
       (case map_get rooms k of
          None \<Rightarrow> None
        | Some room \<Rightarrow>
            if map_has (r_players room) sid then
              (if map_size (map_delete sid (r_players room)) = 0 then None
               else Some (room\<lparr>r_players := map_delete sid (r_players room)\<rparr>))
            else Some room)" by simp
  show ?case
    unfolding e using ih none by (auto simp: d Let_def)
qed simp

lemma fresh_room:
  "initializeRoomTables
       \<lparr>r_id = roomId, r_players = [], r_orders = [], r_tables = [], r_createdAt = now\<rparr> =
     \<lparr>r_id = roomId, r_players = [], r_orders = [],
      r_tables = map (\<lambda>p. (fst p, newRoomTable p)) tablePositions, r_createdAt = now\<rparr>"
  by (simp add: initializeRoomTables_def tablePositions_def)

lemma join_room_fresh:
  assumes "map_get rooms roomId = None"
  shows "map_get (fst (join_room sid roomId role username now rooms)) roomId =
     Some \<lparr>r_id = roomId,
           r_players = [(sid, \<lparr>p_id = sid, p_role = role, p_position = spawnPosition role,
                                p_rotation = (0, 0), p_username = username\<rparr>)],
           r_orders = [], r_tables = map (\<lambda>p. (fst p, newRoomTable p)) tablePositions,
           r_createdAt = now\<rparr>"
  using assms
  by (simp add: join_room_def Let_def map_size_def map_values_def map_get_map_set fresh_room)

text \<open>
  C9. In a room store (a map: no room id twice, as in every reachable store), when a room
  holds exactly one player and that player's connection closes, the room is gone from the
  store after the \<open>disconnect\<close> handler, whatever its tables and orders were. A
  \<open>join-room\<close> with the same id then, and more generally on any store without that id,
  yields a room made anew: its tables are the six of the static layout, every one free and
  reserved by nobody, it has no orders, and its only player is the one who joined.
\<close>

theorem last_disconnect_deletes_room:
  "(distinct (map fst rooms) \<and> map_get rooms roomId = Some room \<and>
      r_players room = [(sid, player)] \<longrightarrow>
      map_get (fst (disconnect sid rooms)) roomId = None
      \<and> (\<exists>room'. map_get (fst (join_room sid' roomId role username now
                                (fst (disconnect sid rooms)))) roomId = Some room'
            \<and> map_values (r_tables room') = map newRoomTable tablePositions
            \<and> map rt_id (map_values (r_tables room')) = [1, 2, 3, 4, 5, 6]
            \<and> list_all (\<lambda>t. \<not> rt_isOccupied t \<and> rt_reservedBy t = None)
                  (map_values (r_tables room'))
            \<and> r_orders room' = [] \<and> r_createdAt room' = now
            \<and> map fst (r_players room') = [sid']))
   \<and> (map_get rooms roomId = None \<longrightarrow>
        (\<exists>room'. map_get (fst (join_room sid' roomId role username now rooms)) roomId = Some room'
            \<and> map_values (r_tables room') = map newRoomTable tablePositions
            \<and> list_all (\<lambda>t. \<not> rt_isOccupied t \<and> rt_reservedBy t = None)
                  (map_values (r_tables room'))
            \<and> r_orders room' = []))"
proof (intro conjI impI)
  assume a: "distinct (map fst rooms) \<and> map_get rooms roomId = Some room \<and>
      r_players room = [(sid, player)]"
  then have gone: "map_get (fst (disconnect sid rooms)) roomId = None"
    by (simp add: map_get_disconnect map_has_def map_size_def)
  then show "map_get (fst (disconnect sid rooms)) roomId = None" .
  from join_room_fresh [OF gone, of sid' role username now]
  show "\<exists>room'. map_get (fst (join_room sid' roomId role username now
                                (fst (disconnect sid rooms)))) roomId = Some room'
            \<and> map_values (r_tables room') = map newRoomTable tablePositions
            \<and> map rt_id (map_values (r_tables room')) = [1, 2, 3, 4, 5, 6]
            \<and> list_all (\<lambda>t. \<not> rt_isOccupied t \<and> rt_reservedBy t = None)
                  (map_values (r_tables room'))
            \<and> r_orders room' = [] \<and> r_createdAt room' = now
            \<and> map fst (r_players room') = [sid']"
    by (simp add: map_values_def tablePositions_def newRoomTable_def)
next
  assume "map_get rooms roomId = None"
  from join_room_fresh [OF this, of sid' role username now]
  show "\<exists>room'. map_get (fst (join_room sid' roomId role username now rooms)) roomId = Some room'
            \<and> map_values (r_tables room') = map newRoomTable tablePositions
            \<and> list_all (\<lambda>t. \<not> rt_isOccupied t \<and> rt_reservedBy t = None)
                  (map_values (r_tables room'))
            \<and> r_orders room' = []"
    by (simp add: map_values_def tablePositions_def newRoomTable_def)
qed

lemma stale_room_eval:
  "stale_room =
     [(''r'', \<lparr>r_id = ''r'',
         r_players = [(''s1'', \<lparr>p_id = ''s1'', p_role = Visitor, p_position = spawnPosition Visitor,
                                  p_rotation = (0, 0), p_username = ''ann''\<rparr>)],
         r_orders = [],
         r_tables = (1, (newRoomTable (1, -6, -6, 4))\<lparr>rt_isOccupied := True,
                           rt_reservedBy := Some ''s1''\<rparr>)
                    # map (\<lambda>p. (fst p, newRoomTable p)) (tl tablePositions),
         r_createdAt = 1\<rparr>)]"
  by (simp add: stale_room_def room_one_def join_room_def book_table_def fresh_room Let_def
        map_size_def map_values_def tablePositions_def newRoomTable_def)

theorem last_disconnect_deletes_room_witness:
  "distinct (map fst stale_room)
   \<and> (\<exists>room player. map_get stale_room ''r'' = Some room \<and> r_players room = [(''s1'', player)]
         \<and> (\<exists>t. map_get (r_tables room) 1 = Some t \<and> rt_isOccupied t))
   \<and> map_get (fst (disconnect ''s1'' stale_room)) ''r'' = None
   \<and> (\<exists>room'. map_get (fst (join_room ''s9'' ''r'' Visitor ''zoe'' 9
                             (fst (disconnect ''s1'' stale_room)))) ''r'' = Some room'
         \<and> map_values (r_tables room') = map newRoomTable tablePositions
         \<and> map rt_id (map_values (r_tables room')) = [1, 2, 3, 4, 5, 6]
         \<and> list_all (\<lambda>t. \<not> rt_isOccupied t \<and> rt_reservedBy t = None)
               (map_values (r_tables room'))
         \<and> r_orders room' = [] \<and> r_createdAt room' = 9
         \<and> map fst (r_players room') = [''s9''])"
proof -
  have d: "distinct (map fst stale_room)" by (simp add: stale_room_eval)
  obtain room player where h: "map_get stale_room ''r'' = Some room"
      "r_players room = [(''s1'', player)]"
      "\<exists>t. map_get (r_tables room) 1 = Some t \<and> rt_isOccupied t"
    by (simp add: stale_room_eval)
  note c = last_disconnect_deletes_room [where rooms = stale_room and roomId = "''r''"
      and room = room and sid = "''s1''" and player = player and sid' = "''s9''"
      and role = Visitor and username = "''zoe''" and now = 9,
      THEN conjunct1, THEN mp, OF conjI [OF d conjI [OF h(1) h(2)]]]
  have e: "\<exists>room player. map_get stale_room ''r'' = Some room \<and> r_players room = [(''s1'', player)]
         \<and> (\<exists>t. map_get (r_tables room) 1 = Some t \<and> rt_isOccupied t)"
    using h by (intro exI [of _ room] exI [of _ player] conjI) assumption+
  show ?thesis by (rule conjI [OF d conjI [OF e c]])
qed

lemma read_or_ordinary:
  "name \<notin> set objectPrototypeNames \<Longrightarrow>
     read_or table name fallback =
       Number (case map_get table name of
                 Some v \<Rightarrow> if v \<noteq> 0 then v else fallback
               | None \<Rightarrow> fallback)"
  by (simp add: read_or_def split: option.splits)

lemma getEstimatedCookingTime_ordinary:
  "dish \<notin> set objectPrototypeNames \<Longrightarrow>
     getEstimatedCookingTime dish =
       Number (if dish = ''Pasta Carbonara'' then 8 else if dish = ''Grilled Steak'' then 10
          else if dish = ''Caesar Salad'' then 5 else if dish = ''Tomato Soup'' then 12
          else if dish = ''Gourmet Burger'' then 15 else if dish = ''Margherita Pizza'' then 18
          else 10)"
  by (simp add: getEstimatedCookingTime_def read_or_ordinary cookingTimes_def)

lemma getEstimatedCookingTime_inherited:
  "dish \<in> set objectPrototypeNames \<Longrightarrow> getEstimatedCookingTime dish = Inherited dish"
  by (auto simp: getEstimatedCookingTime_def read_or_def cookingTimes_def objectPrototypeNames_def)

lemma estimatedTime_ordinary:
  "\<forall>item \<in> set items. l_dish item \<notin> set objectPrototypeNames \<Longrightarrow>
     foldl (\<lambda>sum item. js_plus sum
              (js_times (getEstimatedCookingTime (l_dish item)) (l_quantity item)))
        (Finite a) items =
     Finite (a + (\<Sum>item\<leftarrow>items.
        (if l_dish item = ''Pasta Carbonara'' then 8 else if l_dish item = ''Grilled Steak'' then 10
         else if l_dish item = ''Caesar Salad'' then 5 else if l_dish item = ''Tomato Soup'' then 12
         else if l_dish item = ''Gourmet Burger'' then 15
         else if l_dish item = ''Margherita Pizza'' then 18 else 10) * l_quantity item))"
proof (induction items arbitrary: a)
  case Nil
  show ?case by simp
next
  case (Cons item items)
  from Cons.prems have d: "l_dish item \<notin> set objectPrototypeNames"
    and r: "\<forall>item \<in> set items. l_dish item \<notin> set objectPrototypeNames" by simp_all
  show ?case
    by (simp add: getEstimatedCookingTime_ordinary [OF d] Cons.IH [OF r] add.assoc)
qed

lemma estimatedTime_not_a_number:
  "foldl (\<lambda>sum item. js_plus sum
            (js_times (getEstimatedCookingTime (l_dish item)) (l_quantity item)))
      NotANumber items = NotANumber"
  by (induction items) simp_all

lemma estimatedTime_inherited:
  "\<exists>item \<in> set items. l_dish item \<in> set objectPrototypeNames \<Longrightarrow>
     foldl (\<lambda>sum item. js_plus sum
              (js_times (getEstimatedCookingTime (l_dish item)) (l_quantity item)))
        start items = NotANumber"
proof (induction items arbitrary: start)
  case Nil
  then show ?case by simp
next
  case (Cons item items)
  show ?case
  proof (cases "l_dish item \<in> set objectPrototypeNames")
    case True
    have "js_plus start (js_times (Inherited (l_dish item)) (l_quantity item)) = NotANumber"
      by (cases start) simp_all
    with True show ?thesis
      by (simp add: getEstimatedCookingTime_inherited estimatedTime_not_a_number)
  next
    case False
    with Cons.prems have "\<exists>item \<in> set items. l_dish item \<in> set objectPrototypeNames"
      by auto
    from Cons.IH [OF this] show ?thesis by simp
  qed
qed

lemma place_order_visitor:
  assumes "map_get rooms roomId = Some room" and "map_get (r_players room) sid = Some player"
    and "p_role player = Visitor"
  shows "place_order sid roomId items tableId now now' rooms =
       (map_set roomId
          (room\<lparr>r_orders :=
             map_set (''order_'' @ show_int now @ ''_'' @ sid)
               \<lparr>ro_id = ''order_'' @ show_int now @ ''_'' @ sid,
                ro_dish = join '', ''
                   (map (\<lambda>item. show_int (l_quantity item) @ ''x '' @ l_dish item) items),
                ro_price = sum_list (map l_price items), ro_tableId = tableId,
                ro_orderTime = now', ro_status = StatusPending,
                ro_estimatedTime =
                  foldl (\<lambda>sum item. js_plus sum
                           (js_times (getEstimatedCookingTime (l_dish item)) (l_quantity item)))
                    (Finite 0) items\<rparr>
               (r_orders room)\<rparr>) rooms,
        (case List.find (\<lambda>p. p_role p = Chef) (map_values (r_players room)) of
           Some chef \<Rightarrow>
             [EmitTo sid (p_id chef)
                (OrderReceived (''order_'' @ show_int now @ ''_'' @ sid)
                   (join '', ''
                      (map (\<lambda>item. show_int (l_quantity item) @ ''x '' @ l_dish item) items))
                   tableId
                   (foldl (\<lambda>sum item. js_plus sum
                            (js_times (getEstimatedCookingTime (l_dish item)) (l_quantity item)))
                      (Finite 0) items)
                   items)]
         | None \<Rightarrow> [])
        @ [Emit sid (OrderPlaced (''order_'' @ show_int now @ ''_'' @ sid))])"
  using assms
  by (cases "List.find (\<lambda>p. p_role p = Chef) (map_values (r_players room))")
     (simp_all add: place_order_def Let_def foldl_add_sum_list)

text \<open>
  What \<open>place-order\<close> does whatever the dishes are called. A message from a visitor of an
  existing room stores an order under the id built from the clock and the connection id:
  pending, for the table id that was sent and priced at the sum of the prices of the lines.
  This holds for every table id, list of lines and room: the handler reads neither the
  room's tables nor any inventory, and leaves tables and players as they were. What it sends
  to the requesting connection is \<open>order-placed\<close> and nothing else.
\<close>

lemma place_order_records_order:
  assumes "map_get rooms roomId = Some room" and "map_get (r_players room) sid = Some player"
    and "p_role player = Visitor"
  shows "\<exists>order.
          fst (place_order sid roomId items tableId now now' rooms) =
            map_set roomId
              (room\<lparr>r_orders := map_set (''order_'' @ show_int now @ ''_'' @ sid) order
                                     (r_orders room)\<rparr>) rooms
          \<and> ro_id order = ''order_'' @ show_int now @ ''_'' @ sid
          \<and> ro_status order = StatusPending
          \<and> ro_tableId order = tableId
          \<and> ro_price order = sum_list (map l_price items)
          \<and> (\<exists>room'. map_get (fst (place_order sid roomId items tableId now now' rooms)) roomId
                         = Some room'
                 \<and> map_get (r_orders room') (''order_'' @ show_int now @ ''_'' @ sid) = Some order
                 \<and> r_tables room' = r_tables room \<and> r_players room' = r_players room)
          \<and> (\<exists>to_chef. snd (place_order sid roomId items tableId now now' rooms) =
                 to_chef @ [Emit sid (OrderPlaced (''order_'' @ show_int now @ ''_'' @ sid))]
                 \<and> (\<forall>e \<in> set to_chef. \<exists>chef m. e = EmitTo sid chef m))"
  unfolding place_order_visitor [OF assms]
  by (auto simp: map_get_map_set split: option.splits)

lemma place_order_replies:
  "Emit sid m \<in> set (snd (place_order sid roomId items tableId now now' rooms)) \<Longrightarrow>
     m = OrderPlaced (''order_'' @ show_int now @ ''_'' @ sid)"
  by (auto simp: place_order_def Let_def split: option.splits if_splits)

text \<open>
  The estimated time of the stored order is the sum of cook time times quantity over the
  lines, with the cook time of the table for the six dishes it lists and 10 for any other
  dish, as long as no line names a dish like a member of \<^verbatim>\<open>Object.prototype\<close>. As soon
  as one line does, the estimated time is not a number.
\<close>

lemma place_order_estimate_ordinary:
  assumes "map_get rooms roomId = Some room" and "map_get (r_players room) sid = Some player"
    and "p_role player = Visitor"
    and "\<forall>item \<in> set items. l_dish item \<notin> set objectPrototypeNames"
  shows "\<exists>room' order.
          map_get (fst (place_order sid roomId items tableId now now' rooms)) roomId = Some room'
          \<and> map_get (r_orders room') (''order_'' @ show_int now @ ''_'' @ sid) = Some order
          \<and> ro_estimatedTime order = Finite (\<Sum>item\<leftarrow>items.
               (if l_dish item = ''Pasta Carbonara'' then 8
                else if l_dish item = ''Grilled Steak'' then 10
                else if l_dish item = ''Caesar Salad'' then 5
                else if l_dish item = ''Tomato Soup'' then 12
                else if l_dish item = ''Gourmet Burger'' then 15
                else if l_dish item = ''Margherita Pizza'' then 18 else 10) * l_quantity item)"
  unfolding place_order_visitor [OF assms(1-3)] estimatedTime_ordinary [OF assms(4)]
  by (simp add: map_get_map_set)

lemma place_order_estimate_inherited:
  assumes "map_get rooms roomId = Some room" and "map_get (r_players room) sid = Some player"
    and "p_role player = Visitor"
    and "\<exists>item \<in> set items. l_dish item \<in> set objectPrototypeNames"
  shows "\<exists>room' order.
          map_get (fst (place_order sid roomId items tableId now now' rooms)) roomId = Some room'
          \<and> map_get (r_orders room') (''order_'' @ show_int now @ ''_'' @ sid) = Some order
          \<and> ro_estimatedTime order = NotANumber"
  unfolding place_order_visitor [OF assms(1-3)] estimatedTime_inherited [OF assms(4)]
  by (simp add: map_get_map_set)

lemma room_two_eval:
  "room_two =
     [(''r'', \<lparr>r_id = ''r'',
         r_players = [(''s1'', \<lparr>p_id = ''s1'', p_role = Visitor, p_position = spawnPosition Visitor,
                                  p_rotation = (0, 0), p_username = ''ann''\<rparr>),
                      (''s2'', \<lparr>p_id = ''s2'', p_role = Chef, p_position = spawnPosition Chef,
                                  p_rotation = (0, 0), p_username = ''bob''\<rparr>)],
         r_orders = [],
         r_tables = map (\<lambda>p. (fst p, newRoomTable p)) tablePositions,
         r_createdAt = 1\<rparr>)]"
  by (simp add: room_two_def room_one_def join_room_def fresh_room Let_def
        map_size_def map_values_def)

lemma show_int_1700: "show_int 1700 = ''1700''"
  by (simp add: show_int_def show_nat.simps digit_def)

text \<open>
  C10. The estimated time of a stored order does not always come out of the cook-time table
  with 10 for a dish that the table does not list: a dish named like a member of
  \<^verbatim>\<open>Object.prototype\<close> is not listed and does not get the 10. In the room of a visitor
  \<open>s1\<close> and a chef \<open>s2\<close>, the visitor orders two bowls of Tomato Soup and one
  \<open>constructor\<close> for table 3. \<open>getEstimatedCookingTime\<close> returns the inherited function
  for \<open>constructor\<close>; the order is stored, pending and priced at 123, with an estimated
  time that is not a number, where the table and the fallback give \<open>12 * 2 + 10 * 1 = 34\<close>;
  and that value is what the chef is sent. The same order with \<open>Dragon Stew\<close> in place of
  \<open>constructor\<close> has the estimated time 34.
\<close>

theorem place_order_inherited_dish:
  "getEstimatedCookingTime ''constructor'' = Inherited ''constructor''
   \<and> map_get cookingTimes ''constructor'' = None
   \<and> (\<exists>room order.
         map_get (fst (place_order ''s1'' ''r'' constructor_items 3 1700 1701 room_two)) ''r''
           = Some room
         \<and> map_get (r_orders room) ''order_1700_s1'' = Some order
         \<and> ro_status order = StatusPending \<and> ro_tableId order = 3 \<and> ro_price order = 123
         \<and> ro_estimatedTime order = NotANumber)
   \<and> snd (place_order ''s1'' ''r'' constructor_items 3 1700 1701 room_two) =
       [EmitTo ''s1'' ''s2''
          (OrderReceived ''order_1700_s1'' ''2x Tomato Soup, 1x constructor'' 3 NotANumber
             constructor_items),
        Emit ''s1'' (OrderPlaced ''order_1700_s1'')]
   \<and> (\<exists>room order.
         map_get (fst (place_order ''s1'' ''r'' stew_items 3 1700 1701 room_two)) ''r''
           = Some room
         \<and> map_get (r_orders room) ''order_1700_s1'' = Some order
         \<and> ro_estimatedTime order = Finite 34)"
proof -
  obtain room player where h: "map_get room_two ''r'' = Some room"
      "map_get (r_players room) ''s1'' = Some player" "p_role player = Visitor"
      "List.find (\<lambda>p. p_role p = Chef) (map_values (r_players room)) =
         Some \<lparr>p_id = ''s2'', p_role = Chef, p_position = spawnPosition Chef,
                p_rotation = (0, 0), p_username = ''bob''\<rparr>"
      "r_orders room = []"
    by (simp add: room_two_eval map_values_def)
  have t: "foldl (\<lambda>sum item. js_plus sum
              (js_times (getEstimatedCookingTime (l_dish item)) (l_quantity item)))
            (Finite 0) constructor_items = NotANumber"
    by (simp add: constructor_items_def getEstimatedCookingTime_def read_or_def cookingTimes_def
          objectPrototypeNames_def)
  have u: "foldl (\<lambda>sum item. js_plus sum
              (js_times (getEstimatedCookingTime (l_dish item)) (l_quantity item)))
            (Finite 0) stew_items = Finite 34"
    by (simp add: stew_items_def getEstimatedCookingTime_def read_or_def cookingTimes_def
          objectPrototypeNames_def)
  have d: "join '', ''
        (map (\<lambda>item. show_int (l_quantity item) @ ''x '' @ l_dish item) constructor_items) =
        ''2x Tomato Soup, 1x constructor''"
    by (simp add: constructor_items_def show_int_def show_nat.simps digit_def)
  have p: "sum_list (map l_price constructor_items) = 123"
    by (simp add: constructor_items_def)
  have a: "getEstimatedCookingTime ''constructor'' = Inherited ''constructor''"
    by (simp add: getEstimatedCookingTime_def read_or_def cookingTimes_def
          objectPrototypeNames_def)
  have b: "map_get cookingTimes ''constructor'' = None"
    by (simp add: cookingTimes_def)
  have c: "\<exists>room order.
         map_get (fst (place_order ''s1'' ''r'' constructor_items 3 1700 1701 room_two)) ''r''
           = Some room
         \<and> map_get (r_orders room) ''order_1700_s1'' = Some order
         \<and> ro_status order = StatusPending \<and> ro_tableId order = 3 \<and> ro_price order = 123
         \<and> ro_estimatedTime order = NotANumber"
    unfolding place_order_visitor [OF h(1-3)] t p
    by (simp add: map_get_map_set show_int_1700)
  have e: "snd (place_order ''s1'' ''r'' constructor_items 3 1700 1701 room_two) =
       [EmitTo ''s1'' ''s2''
          (OrderReceived ''order_1700_s1'' ''2x Tomato Soup, 1x constructor'' 3 NotANumber
             constructor_items),
        Emit ''s1'' (OrderPlaced ''order_1700_s1'')]"
    unfolding place_order_visitor [OF h(1-3)] t d h(4)
    by (simp add: show_int_1700)
  have f: "\<exists>room order.
         map_get (fst (place_order ''s1'' ''r'' stew_items 3 1700 1701 room_two)) ''r''
           = Some room
         \<and> map_get (r_orders room) ''order_1700_s1'' = Some order
         \<and> ro_estimatedTime order = Finite 34"
    unfolding place_order_visitor [OF h(1-3)] u
    by (simp add: map_get_map_set show_int_1700)
  show ?thesis by (rule conjI [OF a conjI [OF b conjI [OF c conjI [OF e f]]]])
qed

section \<open>The chef's progress and score\<close>

lemma chefState_notify [simp]: "chefState (chef_notifyStateChange c) = chefState c"
  by (simp add: chef_notifyStateChange_def)

lemma cookingStartTime_notify [simp]:
  "cookingStartTime (chef_notifyStateChange c) = cookingStartTime c"
  by (simp add: chef_notifyStateChange_def)

lemma getDishScore_ordinary:
  "dish \<notin> set objectPrototypeNames \<Longrightarrow>
     getDishScore dish =
       Number (if dish = ''Pasta Carbonara'' then 100 else if dish = ''Grilled Steak'' then 150
          else if dish = ''Caesar Salad'' then 80 else if dish = ''Tomato Soup'' then 120
          else if dish = ''Gourmet Burger'' then 200 else if dish = ''Margherita Pizza'' then 180
          else 100)"
  by (simp add: getDishScore_def read_or_ordinary dishScores_def)

lemma getDishScore_inherited:
  "dish \<in> set objectPrototypeNames \<Longrightarrow> getDishScore dish = Inherited dish"
  by (auto simp: getDishScore_def read_or_def dishScores_def objectPrototypeNames_def)

lemma completeCooking_state:
  "cs_currentOrder (chefState c) = Some order \<Longrightarrow>
     chefState (completeCooking c) =
       (chefState c)\<lparr>cs_score := js_append (cs_score (chefState c))
           (js_add (getDishScore (c_dish order))
              \<lfloor>max 0 (c_estimatedTime order - cs_timeRemaining (chefState c)) * 10\<rfloor>),
         cs_completedOrders := cs_completedOrders (chefState c) + 1,
         cs_phase := Serving\<rparr>"
  by (simp add: completeCooking_def Let_def)

lemma updateCookingProgress_state:
  assumes "cs_phase (chefState c) = CookingPhase" and "cs_currentOrder (chefState c) = Some order"
  shows "chefState (updateCookingProgress now c) =
     (if js_ge100 (js_min100 (js_times100 (js_div ((now - cookingStartTime c) / 1000)
                                                  (c_estimatedTime order))))
      then (chefState c)
        \<lparr>cs_cookingProgress :=
           js_min100 (js_times100 (js_div ((now - cookingStartTime c) / 1000)
                                          (c_estimatedTime order))),
         cs_timeRemaining := max (c_estimatedTime order - (now - cookingStartTime c) / 1000) 0,
         cs_score := js_append (cs_score (chefState c))
           (js_add (getDishScore (c_dish order))
              \<lfloor>max 0 (c_estimatedTime order -
                       max (c_estimatedTime order - (now - cookingStartTime c) / 1000) 0) * 10\<rfloor>),
         cs_completedOrders := cs_completedOrders (chefState c) + 1,
         cs_phase := Serving\<rparr>
      else (chefState c)
        \<lparr>cs_cookingProgress :=
           js_min100 (js_times100 (js_div ((now - cookingStartTime c) / 1000)
                                          (c_estimatedTime order))),
         cs_timeRemaining := max (c_estimatedTime order - (now - cookingStartTime c) / 1000) 0\<rparr>)"
  using assms by (simp add: updateCookingProgress_def Let_def completeCooking_def)

lemma ratio_full:
  fixes e est :: real
  assumes "0 < est" and "est \<le> e"
  shows "100 \<le> e / est * 100"
proof -
  from assms have "1 \<le> e / est" by (simp add: le_divide_eq)
  then have "1 * 100 \<le> e / est * 100" by (rule mult_right_mono) simp
  then show ?thesis by simp
qed

lemma progress_full:
  assumes "0 < est" and "est \<le> e"
  shows "js_min100 (js_times100 (js_div e est)) = Num 100"
proof -
  have "min (e / est * 100) 100 = 100"
    using ratio_full [OF assms] by (rule min_absorb2)
  with assms(1) show ?thesis by (simp add: js_div_def)
qed

text \<open>
  The score formula for a dish with an ordinary name. When cooking completes and the base
  score read from the table is a number \<open>b\<close>, a numeric score grows by
  \<open>b + \<lfloor>timeBonus * 10\<rfloor>\<close>, where \<open>timeBonus = max 0 (estimatedTime - timeRemaining)\<close>; so a
  completion whose time bonus is zero earns exactly the base score. On the only path that
  reaches \<open>completeCooking\<close>, the sample of \<open>updateCookingProgress\<close> that finds the
  progress at 100, the remaining time is 0 for a positive estimated time, and the score
  earned is \<open>b + \<lfloor>estimatedTime * 10\<rfloor>\<close>.
\<close>

lemma completeCooking_score_ordinary:
  assumes "cs_currentOrder (chefState c) = Some order"
    and "cs_score (chefState c) = Points s"
    and "getDishScore (c_dish order) = Number b"
  shows "cs_score (chefState (completeCooking c)) =
           Points (s + (b + \<lfloor>max 0 (c_estimatedTime order - cs_timeRemaining (chefState c)) * 10\<rfloor>))"
    and "max 0 (c_estimatedTime order - cs_timeRemaining (chefState c)) = 0 \<Longrightarrow>
           cs_score (chefState (completeCooking c)) = Points (s + b)"
    and "cs_phase (chefState (completeCooking c)) = Serving"
    and "cs_completedOrders (chefState (completeCooking c)) = cs_completedOrders (chefState c) + 1"
  using assms(2,3) by (simp_all add: completeCooking_state [OF assms(1)])

lemma updateCookingProgress_score_ordinary:
  assumes "cs_phase (chefState c) = CookingPhase"
    and "cs_currentOrder (chefState c) = Some order"
    and "cs_score (chefState c) = Points s"
    and "getDishScore (c_dish order) = Number b"
    and "0 < c_estimatedTime order"
    and "c_estimatedTime order \<le> (now - cookingStartTime c) / 1000"
  shows "cs_timeRemaining (chefState (updateCookingProgress now c)) = 0"
    and "cs_score (chefState (updateCookingProgress now c)) =
           Points (s + (b + \<lfloor>c_estimatedTime order * 10\<rfloor>))"
proof -
  note s = updateCookingProgress_state [OF assms(1,2), of now]
  note f = progress_full [OF assms(5,6)]
  have r: "max (c_estimatedTime order - (now - cookingStartTime c) / 1000) 0 = 0"
    using assms(6) by simp
  show "cs_timeRemaining (chefState (updateCookingProgress now c)) = 0"
    unfolding s f r by simp
  show "cs_score (chefState (updateCookingProgress now c)) =
           Points (s + (b + \<lfloor>c_estimatedTime order * 10\<rfloor>))"
    unfolding s f r using assms(3,4,5) by simp
qed

text \<open>
  For a dish named like a member of \<^verbatim>\<open>Object.prototype\<close> the base score is no number, and
  the score is a string from the completion on.
\<close>

lemma completeCooking_score_inherited:
  assumes "cs_currentOrder (chefState c) = Some order"
    and "c_dish order \<in> set objectPrototypeNames"
  shows "cs_score (chefState (completeCooking c)) = Text"
  by (cases "cs_score (chefState c)")
     (simp_all add: completeCooking_state [OF assms(1)] getDishScore_inherited [OF assms(2)])

text \<open>
  C8. While the chef is cooking an order, a sample at clock \<open>now\<close> sets the remaining time
  to \<open>max (estimatedTime - elapsed) 0\<close> and the progress to
  \<open>min (elapsed / estimatedTime * 100) 100\<close>, with \<open>elapsed = (now - cookingStartTime) / 1000\<close>
  (in JavaScript's arithmetic, which for a non-zero estimated time is the arithmetic of the
  reals). The phase after the sample is \<open>serving\<close> exactly when the progress has reached
  100, and the order stays current: no serve action is involved. Once the elapsed time has
  reached a positive estimated time the progress is 100 and the phase is \<open>serving\<close>.
\<close>

theorem updateCookingProgress_sampling:
  "(\<forall>order. cs_phase (chefState c) = CookingPhase \<and> cs_currentOrder (chefState c) = Some order
      \<longrightarrow>
      cs_timeRemaining (chefState (updateCookingProgress now c)) =
        max (c_estimatedTime order - (now - cookingStartTime c) / 1000) 0
      \<and> cs_cookingProgress (chefState (updateCookingProgress now c)) =
          js_min100 (js_times100 (js_div ((now - cookingStartTime c) / 1000)
                                         (c_estimatedTime order)))
      \<and> (c_estimatedTime order \<noteq> 0 \<longrightarrow>
           cs_cookingProgress (chefState (updateCookingProgress now c)) =
             Num (min ((now - cookingStartTime c) / 1000 / c_estimatedTime order * 100) 100))
      \<and> (cs_phase (chefState (updateCookingProgress now c)) =
           (if js_ge100 (cs_cookingProgress (chefState (updateCookingProgress now c)))
            then Serving else CookingPhase))
      \<and> cs_currentOrder (chefState (updateCookingProgress now c)) = Some order
      \<and> (0 < c_estimatedTime order \<and>
          c_estimatedTime order \<le> (now - cookingStartTime c) / 1000 \<longrightarrow>
           cs_cookingProgress (chefState (updateCookingProgress now c)) = Num 100 \<and>
           cs_phase (chefState (updateCookingProgress now c)) = Serving))"
proof (intro allI impI)
  fix order
  assume a: "cs_phase (chefState c) = CookingPhase \<and> cs_currentOrder (chefState c) = Some order"
  then have p: "cs_phase (chefState c) = CookingPhase"
    and o: "cs_currentOrder (chefState c) = Some order" by simp_all
  let ?elapsed = "(now - cookingStartTime c) / 1000"
  let ?p = "js_min100 (js_times100 (js_div ?elapsed (c_estimatedTime order)))"
  note s = updateCookingProgress_state [OF p o, of now]
  have fin: "?p = Num (min (?elapsed / c_estimatedTime order * 100) 100)"
    if "c_estimatedTime order \<noteq> 0"
    using that by (simp add: js_div_def)
  have full: "?p = Num 100"
    if "0 < c_estimatedTime order \<and> c_estimatedTime order \<le> ?elapsed"
    using that by (intro progress_full) simp_all
  show "cs_timeRemaining (chefState (updateCookingProgress now c)) =
        max (c_estimatedTime order - (now - cookingStartTime c) / 1000) 0
      \<and> cs_cookingProgress (chefState (updateCookingProgress now c)) =
          js_min100 (js_times100 (js_div ((now - cookingStartTime c) / 1000)
                                         (c_estimatedTime order)))
      \<and> (c_estimatedTime order \<noteq> 0 \<longrightarrow>
           cs_cookingProgress (chefState (updateCookingProgress now c)) =
             Num (min ((now - cookingStartTime c) / 1000 / c_estimatedTime order * 100) 100))
      \<and> (cs_phase (chefState (updateCookingProgress now c)) =
           (if js_ge100 (cs_cookingProgress (chefState (updateCookingProgress now c)))
            then Serving else CookingPhase))
      \<and> cs_currentOrder (chefState (updateCookingProgress now c)) = Some order
      \<and> (0 < c_estimatedTime order \<and>
          c_estimatedTime order \<le> (now - cookingStartTime c) / 1000 \<longrightarrow>
           cs_cookingProgress (chefState (updateCookingProgress now c)) = Num 100 \<and>
           cs_phase (chefState (updateCookingProgress now c)) = Serving)"
    using p o fin full unfolding s by (cases "js_ge100 ?p") auto
qed

lemma chef_cooking_state:
  "chefState chef_cooking =
     \<lparr>cs_phase = CookingPhase,
      cs_currentOrder = Some \<lparr>c_id = ''order_1'', c_dish = ''Gourmet Burger'', c_tableId = 3,
                               c_orderTime = 1000, c_estimatedTime = 10\<rparr>,
      cs_cookingProgress = Num 0, cs_timeRemaining = 10, cs_score = Points 0,
      cs_completedOrders = 0, cs_isInKitchen = False, cs_tutorialCompleted = True\<rparr>"
  by (simp add: chef_cooking_def chef_waiting_def burger_request_def receiveOrder_def
        completeTutorial_def startTutorial_def newChefFlowController_def initialChefState_def
        notifyOrderReceived_def)

lemma chef_cooking_start: "cookingStartTime chef_cooking = 1000"
  by (simp add: chef_cooking_def chef_waiting_def receiveOrder_def
        completeTutorial_def startTutorial_def newChefFlowController_def initialChefState_def
        notifyOrderReceived_def)

theorem updateCookingProgress_sampling_witness:
  "cs_phase (chefState chef_cooking) = CookingPhase
   \<and> (\<exists>order. cs_currentOrder (chefState chef_cooking) = Some order \<and>
          c_estimatedTime order = 10)
   \<and> cookingStartTime chef_cooking = 1000
   \<and> cs_cookingProgress (chefState (updateCookingProgress 11000 chef_cooking)) = Num 100
   \<and> cs_timeRemaining (chefState (updateCookingProgress 11000 chef_cooking)) = 0
   \<and> cs_phase (chefState (updateCookingProgress 11000 chef_cooking)) = Serving
   \<and> cs_cookingProgress (chefState (updateCookingProgress 6000 chef_cooking)) = Num 50
   \<and> cs_timeRemaining (chefState (updateCookingProgress 6000 chef_cooking)) = 5
   \<and> cs_phase (chefState (updateCookingProgress 6000 chef_cooking)) = CookingPhase"
proof -
  let ?order = "\<lparr>c_id = ''order_1'', c_dish = ''Gourmet Burger'', c_tableId = 3,
                  c_orderTime = 1000, c_estimatedTime = 10\<rparr>"
  have h: "cs_phase (chefState chef_cooking) = CookingPhase \<and>
      cs_currentOrder (chefState chef_cooking) = Some ?order"
    by (simp add: chef_cooking_state)
  note full = updateCookingProgress_sampling [of chef_cooking 11000, rule_format, OF h]
  note half = updateCookingProgress_sampling [of chef_cooking 6000, rule_format, OF h]
  have e: "\<exists>order. cs_currentOrder (chefState chef_cooking) = Some order \<and>
          c_estimatedTime order = 10"
    by (simp add: chef_cooking_state)
  from full have f1: "cs_cookingProgress (chefState (updateCookingProgress 11000 chef_cooking)) = Num 100"
    and f2: "cs_timeRemaining (chefState (updateCookingProgress 11000 chef_cooking)) = 0"
    and f3: "cs_phase (chefState (updateCookingProgress 11000 chef_cooking)) = Serving"
    by (simp_all add: chef_cooking_start js_div_def)
  from half have g1: "cs_cookingProgress (chefState (updateCookingProgress 6000 chef_cooking)) = Num 50"
    and g2: "cs_timeRemaining (chefState (updateCookingProgress 6000 chef_cooking)) = 5"
    by (simp_all add: chef_cooking_start js_div_def)
  from half g1 have g3: "cs_phase (chefState (updateCookingProgress 6000 chef_cooking)) = CookingPhase"
    by simp
  from h e f1 f2 f3 g1 g2 g3 show ?thesis by (simp add: chef_cooking_start)
qed

lemma chef_instant_state:
  "chefState chef_instant =
     \<lparr>cs_phase = CookingPhase,
      cs_currentOrder = Some \<lparr>c_id = ''order_2'', c_dish = ''Caesar Salad'', c_tableId = 3,
                               c_orderTime = 1000, c_estimatedTime = 0\<rparr>,
      cs_cookingProgress = Num 0, cs_timeRemaining = 0, cs_score = Points 0,
      cs_completedOrders = 0, cs_isInKitchen = False, cs_tutorialCompleted = True\<rparr>"
  by (simp add: chef_instant_def chef_waiting_def instant_request_def receiveOrder_def
        completeTutorial_def startTutorial_def newChefFlowController_def initialChefState_def
        notifyOrderReceived_def)

lemma chef_instant_start: "cookingStartTime chef_instant = 1000"
  by (simp add: chef_instant_def chef_waiting_def receiveOrder_def
        completeTutorial_def startTutorial_def newChefFlowController_def initialChefState_def
        notifyOrderReceived_def)

lemma chef_constructor_state:
  "chefState chef_constructor =
     \<lparr>cs_phase = CookingPhase,
      cs_currentOrder = Some \<lparr>c_id = ''order_3'', c_dish = ''constructor'', c_tableId = 3,
                               c_orderTime = 1000, c_estimatedTime = 10\<rparr>,
      cs_cookingProgress = Num 0, cs_timeRemaining = 10, cs_score = Points 0,
      cs_completedOrders = 0, cs_isInKitchen = False, cs_tutorialCompleted = True\<rparr>"
  by (simp add: chef_constructor_def chef_waiting_def constructor_request_def receiveOrder_def
        completeTutorial_def startTutorial_def newChefFlowController_def initialChefState_def
        notifyOrderReceived_def)

lemma chef_constructor_start: "cookingStartTime chef_constructor = 1000"
  by (simp add: chef_constructor_def chef_waiting_def receiveOrder_def
        completeTutorial_def startTutorial_def newChefFlowController_def initialChefState_def
        notifyOrderReceived_def)

lemma chef_stew_state:
  "chefState chef_stew =
     \<lparr>cs_phase = CookingPhase,
      cs_currentOrder = Some \<lparr>c_id = ''order_4'', c_dish = ''Dragon Stew'', c_tableId = 3,
                               c_orderTime = 1000, c_estimatedTime = 10\<rparr>,
      cs_cookingProgress = Num 0, cs_timeRemaining = 10, cs_score = Points 0,
      cs_completedOrders = 0, cs_isInKitchen = False, cs_tutorialCompleted = True\<rparr>"
  by (simp add: chef_stew_def chef_waiting_def stew_request_def receiveOrder_def
        completeTutorial_def startTutorial_def newChefFlowController_def initialChefState_def
        notifyOrderReceived_def)

lemma chef_stew_start: "cookingStartTime chef_stew = 1000"
  by (simp add: chef_stew_def chef_waiting_def receiveOrder_def
        completeTutorial_def startTutorial_def newChefFlowController_def initialChefState_def
        notifyOrderReceived_def)

text \<open>
  Scenario C and its variants, on the ordinary path: the Gourmet Burger (base score 200,
  estimated time 10) completed by the sample at clock 11000 earns \<open>200 + \<lfloor>10 * 10\<rfloor>\<close>, and
  completed with no time bonus earns 200; the unlisted Dragon Stew earns the fallback
  \<open>100 + \<lfloor>10 * 10\<rfloor>\<close>; the Caesar Salad with an estimated time of 0 earns its base score 80.
\<close>

lemma score_examples:
  "cs_score (chefState (updateCookingProgress 11000 chef_cooking)) = Points 300
   \<and> cs_score (chefState (completeCooking chef_cooking)) = Points 200
   \<and> cs_score (chefState (updateCookingProgress 11000 chef_stew)) = Points 200
   \<and> cs_score (chefState (updateCookingProgress 1100 chef_instant)) = Points 80"
proof -
  let ?burger = "\<lparr>c_id = ''order_1'', c_dish = ''Gourmet Burger'', c_tableId = 3,
                   c_orderTime = 1000, c_estimatedTime = 10\<rparr>"
  let ?stew = "\<lparr>c_id = ''order_4'', c_dish = ''Dragon Stew'', c_tableId = 3,
                 c_orderTime = 1000, c_estimatedTime = 10\<rparr>"
  let ?salad = "\<lparr>c_id = ''order_2'', c_dish = ''Caesar Salad'', c_tableId = 3,
                  c_orderTime = 1000, c_estimatedTime = 0\<rparr>"
  have n: "''Gourmet Burger'' \<notin> set objectPrototypeNames"
      "''Dragon Stew'' \<notin> set objectPrototypeNames" "''Caesar Salad'' \<notin> set objectPrototypeNames"
    by (simp_all add: objectPrototypeNames_def)
  have b: "getDishScore (c_dish ?burger) = Number 200" "getDishScore (c_dish ?stew) = Number 100"
      "getDishScore (c_dish ?salad) = Number 80"
    by (simp_all add: getDishScore_ordinary n)
  have p1: "cs_phase (chefState chef_cooking) = CookingPhase"
    and o1: "cs_currentOrder (chefState chef_cooking) = Some ?burger"
    and s1: "cs_score (chefState chef_cooking) = Points 0"
    and z1: "max 0 (c_estimatedTime ?burger - cs_timeRemaining (chefState chef_cooking)) = 0"
    by (simp_all add: chef_cooking_state)
  have p2: "cs_phase (chefState chef_stew) = CookingPhase"
    and o2: "cs_currentOrder (chefState chef_stew) = Some ?stew"
    and s2: "cs_score (chefState chef_stew) = Points 0"
    by (simp_all add: chef_stew_state)
  have p3: "cs_phase (chefState chef_instant) = CookingPhase"
    and o3: "cs_currentOrder (chefState chef_instant) = Some ?salad"
    and s3: "cs_score (chefState chef_instant) = Points 0"
    by (simp_all add: chef_instant_state)
  have e1: "cs_score (chefState (updateCookingProgress 11000 chef_cooking)) = Points 300"
    using updateCookingProgress_score_ordinary(2) [OF p1 o1 s1 b(1), of 11000]
    by (simp add: chef_cooking_start)
  have e2: "cs_score (chefState (completeCooking chef_cooking)) = Points 200"
    using completeCooking_score_ordinary(2) [OF o1 s1 b(1) z1] by simp
  have e3: "cs_score (chefState (updateCookingProgress 11000 chef_stew)) = Points 200"
    using updateCookingProgress_score_ordinary(2) [OF p2 o2 s2 b(2), of 11000]
    by (simp add: chef_stew_start)
  have e4: "cs_score (chefState (updateCookingProgress 1100 chef_instant)) = Points 80"
    unfolding updateCookingProgress_state [OF p3 o3]
    using s3 b(3) by (simp add: chef_instant_start js_div_def chef_instant_state)
  show ?thesis by (rule conjI [OF e1 conjI [OF e2 conjI [OF e3 e4]]])
qed

text \<open>
  C7. The score earned on completion is not always the base score of the dish, or the
  fallback of 100 for a dish that the score table does not list, plus
  \<open>\<lfloor>timeBonus * 10\<rfloor>\<close>: a dish named like a member of \<^verbatim>\<open>Object.prototype\<close> is not listed
  and does not get the 100. A chef in the phase \<open>waiting_for_order\<close> with score 0 receives
  an order for a dish called \<open>constructor\<close> with an estimated time of 10 seconds, and the
  sample taken 10 seconds later completes it. \<open>getDishScore\<close> returns the inherited
  function for \<open>constructor\<close>, and the score after the completion is a string, where the
  fallback and the formula give \<open>100 + \<lfloor>10 * 10\<rfloor> = 200\<close>, the score that the order for
  \<open>Dragon Stew\<close> earns.
\<close>

theorem completeCooking_inherited_dish:
  "cs_phase (chefState chef_waiting) = WaitingForOrder
   \<and> cs_score (chefState chef_waiting) = Points 0
   \<and> map_get dishScores ''constructor'' = None
   \<and> getDishScore ''constructor'' = Inherited ''constructor''
   \<and> cs_phase (chefState chef_constructor) = CookingPhase
   \<and> cs_score (chefState chef_constructor) = Points 0
   \<and> cs_phase (chefState (updateCookingProgress 11000 chef_constructor)) = Serving
   \<and> cs_completedOrders (chefState (updateCookingProgress 11000 chef_constructor)) = 1
   \<and> cs_score (chefState (updateCookingProgress 11000 chef_constructor)) = Text
   \<and> cs_score (chefState (completeCooking chef_constructor)) = Text
   \<and> cs_score (chefState (updateCookingProgress 11000 chef_stew)) = Points 200"
proof -
  let ?order = "\<lparr>c_id = ''order_3'', c_dish = ''constructor'', c_tableId = 3,
                  c_orderTime = 1000, c_estimatedTime = 10\<rparr>"
  have w: "cs_phase (chefState chef_waiting) = WaitingForOrder"
      "cs_score (chefState chef_waiting) = Points 0"
    by (simp_all add: chef_waiting_def completeTutorial_def startTutorial_def
          newChefFlowController_def initialChefState_def)
  have m: "map_get dishScores ''constructor'' = None"
    by (simp add: dishScores_def)
  have g: "getDishScore ''constructor'' = Inherited ''constructor''"
    by (simp add: getDishScore_def read_or_def dishScores_def objectPrototypeNames_def)
  have p: "cs_phase (chefState chef_constructor) = CookingPhase"
    and o: "cs_currentOrder (chefState chef_constructor) = Some ?order"
    and s: "cs_score (chefState chef_constructor) = Points 0"
    by (simp_all add: chef_constructor_state)
  have f: "js_min100 (js_times100 (js_div ((11000 - cookingStartTime chef_constructor) / 1000)
              (c_estimatedTime ?order))) = Num 100"
    by (simp add: chef_constructor_start js_div_def)
  have u: "cs_phase (chefState (updateCookingProgress 11000 chef_constructor)) = Serving"
      "cs_completedOrders (chefState (updateCookingProgress 11000 chef_constructor)) = 1"
      "cs_score (chefState (updateCookingProgress 11000 chef_constructor)) = Text"
    unfolding updateCookingProgress_state [OF p o] f
    using g by (simp_all add: chef_constructor_state)
  have c: "cs_score (chefState (completeCooking chef_constructor)) = Text"
    unfolding completeCooking_state [OF o] using g by (simp add: chef_constructor_state)
  note e = score_examples [THEN conjunct2, THEN conjunct2, THEN conjunct1]
  show ?thesis
    by (rule conjI [OF w(1) conjI [OF w(2) conjI [OF m conjI [OF g conjI [OF p conjI [OF s
          conjI [OF u(1) conjI [OF u(2) conjI [OF u(3) conjI [OF c e]]]]]]]]]])
qed

section \<open>The visitor's transitions\<close>

text \<open>
  Eleven transition methods test the phase first and do nothing in any other phase.
\<close>

lemma guarded_transitions_noop:
  "vs_phase (state c) \<noteq> Entrance \<Longrightarrow> enterReception c = c"
  "vs_phase (state c) \<noteq> Reception \<Longrightarrow> startBooking n c = c"
  "vs_phase (state c) \<noteq> WaiterApproaching \<Longrightarrow> waiterApproached c = c"
  "vs_phase (state c) \<noteq> WalkingToTable \<Longrightarrow> reachedTable c = c"
  "vs_phase (state c) \<noteq> AtTable \<Longrightarrow> sitDown c = c"
  "vs_phase (state c) \<noteq> Seated \<Longrightarrow> requestMenu c = c"
  "vs_phase (state c) \<noteq> MenuRequestedPhase \<Longrightarrow> menuShown c = c"
  "vs_phase (state c) \<noteq> WalkingToTable \<Longrightarrow> seatAtTable c = c"
  "vs_phase (state c) \<noteq> Seated \<Longrightarrow> startOrdering c = c"
  "vs_phase (state c) \<noteq> Ordering \<Longrightarrow> placeOrder items oid t t' (c, db) = (c, db)"
  "vs_phase (state c) \<noteq> ServedPhase \<Longrightarrow> submitRating r c = c"
  by (simp_all add: enterReception_def startBooking_def waiterApproached_def reachedTable_def
        sitDown_def requestMenu_def menuShown_def seatAtTable_def startOrdering_def
        placeOrder_def submitRating_def split: option.splits)

text \<open>
  C6. Not every transition method is a no-op outside its source phase: two of them have no
  test of the phase. \<open>assignTable\<close>, whose source phase is \<open>booking\<close>, moves a visitor
  who still stands at the entrance to \<open>waiter_approaching\<close> whenever the table can be
  reserved. \<open>updateOrderStatus\<close>, whose source phase is \<open>waiting\<close>, moves a visitor who
  has rated the meal and is \<open>complete\<close> back to \<open>served\<close> when the served event for the
  order arrives a second time.
\<close>

theorem unguarded_visitor_transitions:
  "vs_phase (state (fst visitor_start)) = Entrance
   \<and> vs_phase (state (fst (assignTable 1 500 visitor_start))) = WaiterApproaching
   \<and> vs_currentTable (state (fst (assignTable 1 500 visitor_start))) = Some 1
   \<and> vs_phase (state (fst visitor_done)) = Complete
   \<and> vs_phase (state (visitor_updateOrderStatus ''order_1'' StatusServed (fst visitor_done)))
       = ServedPhase"
  by code_simp

section \<open>Exclusive reservation\<close>

lemma tables_ok_get:
  "tables_ok rooms \<Longrightarrow> map_get rooms k = Some room \<Longrightarrow>
     map rt_id (map_values (r_tables room)) = [1, 2, 3, 4, 5, 6]"
  by (auto simp: tables_ok_def list_all_iff dest!: map_get_Some_mem)

lemma tables_ok_set:
  "tables_ok rooms \<Longrightarrow> map rt_id (map_values (r_tables room)) = [1, 2, 3, 4, 5, 6] \<Longrightarrow>
     tables_ok (map_set k room rooms)"
  using set_map_set [of k room rooms]
  by (auto simp: tables_ok_def list_all_iff)

lemma tables_ok_set_same:
  "tables_ok rooms \<Longrightarrow> map_get rooms k = Some room \<Longrightarrow> r_tables room' = r_tables room \<Longrightarrow>
     tables_ok (map_set k room' rooms)"
  by (auto intro!: tables_ok_set dest: tables_ok_get)

lemma tables_ok_delete: "tables_ok rooms \<Longrightarrow> tables_ok (map_delete k rooms)"
  using set_map_delete [of k rooms]
  by (auto simp: tables_ok_def list_all_iff)

lemma ids_updateFirst:
  "(\<And>t. rt_id (f t) = rt_id t) \<Longrightarrow>
     map rt_id (map_values (updateFirst P f m)) = map rt_id (map_values m)"
  by (induction m) (auto simp: map_values_def)

lemma tables_ok_join_room:
  assumes "tables_ok rooms"
  shows "tables_ok (fst (join_room sid roomId role username now rooms))"
proof (cases "map_get rooms roomId")
  case None
  let ?room = "\<lparr>r_id = roomId, r_players = [], r_orders = [],
      r_tables = map (\<lambda>p. (fst p, newRoomTable p)) tablePositions, r_createdAt = now\<rparr>"
  have ids: "map rt_id (map_values (r_tables ?room)) = [1, 2, 3, 4, 5, 6]"
    by (simp add: map_values_def tablePositions_def newRoomTable_def)
  then have "tables_ok (map_set roomId ?room rooms)" using assms by (intro tables_ok_set)
  with None ids show ?thesis
    by (auto simp: join_room_def Let_def fresh_room map_size_def intro!: tables_ok_set)
next
  case (Some room)
  with assms show ?thesis
    by (auto simp: join_room_def Let_def intro: tables_ok_set_same)
qed

lemma tables_ok_book_table:
  "tables_ok rooms \<Longrightarrow> tables_ok (fst (book_table sid roomId n rooms))"
  by (auto simp: book_table_def ids_updateFirst split: option.splits
        intro!: tables_ok_set dest: tables_ok_get)

lemma tables_ok_disconnect: "tables_ok rooms \<Longrightarrow> tables_ok (fst (disconnect sid rooms))"
proof (induction rooms)
  case (Cons e rooms)
  obtain k room where e: "e = (k, room)" by (cases e)
  obtain rest es where d: "disconnect sid rooms = (rest, es)" by (cases "disconnect sid rooms")
  from Cons e d have "tables_ok rest" by (simp add: tables_ok_def)
  with Cons.prems show ?case unfolding e by (auto simp: d Let_def tables_ok_def)
qed (simp add: tables_ok_def)

lemma tables_ok_handle: "tables_ok rooms \<Longrightarrow> tables_ok (fst (handle sid now now' ev rooms))"
proof (cases ev)
  case (JoinRoom roomId role username)
  then show "tables_ok rooms \<Longrightarrow> ?thesis" by (simp add: tables_ok_join_room)
next
  case (PlayerMove roomId pos rot)
  then show "tables_ok rooms \<Longrightarrow> ?thesis"
    by (auto simp: player_move_def split: option.splits intro: tables_ok_set_same)
next
  case (BookTable roomId n)
  then show "tables_ok rooms \<Longrightarrow> ?thesis" by (simp add: tables_ok_book_table)
next
  case (PlaceOrder roomId items tableId)
  then show "tables_ok rooms \<Longrightarrow> ?thesis"
    by (auto simp: place_order_def Let_def split: option.splits intro: tables_ok_set_same)
next
  case (OrderStatusUpdate roomId orderId status)
  then show "tables_ok rooms \<Longrightarrow> ?thesis"
    by (auto simp: order_status_update_def Let_def split: option.splits
          intro: tables_ok_set_same)
next
  case (OrderCompleted roomId orderId t b)
  then show "tables_ok rooms \<Longrightarrow> ?thesis"
    by (auto simp: order_completed_def split: option.splits intro: tables_ok_set_same)
next
  case (EndSession roomId)
  then show "tables_ok rooms \<Longrightarrow> ?thesis"
    by (auto simp: end_session_def Let_def split: option.splits intro: tables_ok_delete)
next
  case Disconnect
  then show "tables_ok rooms \<Longrightarrow> ?thesis" by (simp add: tables_ok_disconnect)
qed (simp_all add: player_action_def submit_rating_def tutorial_completed_def
       visitor_sat_down_def menu_requested_def split: option.splits)

lemma reachable_tables_ok: "reachable rooms \<Longrightarrow> tables_ok rooms"
proof (induction rule: reachable.induct)
  case reachable_init
  show ?case by (simp add: tables_ok_def)
next
  case (reachable_step rooms sid now now' ev)
  then show ?case by (simp add: tables_ok_handle)
qed

text \<open>After the scan has marked its table, no free table carries the id of that table.\<close>

lemma updateFirst_occupies:
  assumes "distinct (map rt_id (map_values m))"
    and "List.find P (map_values m) = Some t"
    and "\<And>t. rt_id (f t) = rt_id t" and "\<And>t. rt_isOccupied (f t)"
    and "t' \<in> set (map_values (updateFirst P f m))" and "\<not> rt_isOccupied t'"
  shows "rt_id t' \<noteq> rt_id t"
  using assms(1,2,5)
proof (induction m)
  case (Cons e m)
  obtain k v where e: "e = (k, v)" by (cases e)
  show ?case
  proof (cases "P v")
    case True
    with Cons.prems e have "t = v" by (simp add: map_values_def)
    moreover from True Cons.prems(3) e assms(4,6) have "t' \<in> set (map_values m)"
      by (auto simp: map_values_def)
    ultimately show ?thesis using Cons.prems(1) e by (force simp: map_values_def)
  next
    case False
    with Cons.prems e have f: "List.find P (map_values m) = Some t" by (simp add: map_values_def)
    then have tin: "t \<in> set (map_values m)" by (auto simp: find_Some_iff)
    from False Cons.prems(3) e have "t' = v \<or> t' \<in> set (map_values (updateFirst P f m))"
      by (auto simp: map_values_def)
    then show ?thesis
    proof
      assume "t' = v"
      with Cons.prems(1) e tin show ?thesis by (force simp: map_values_def)
    next
      assume "t' \<in> set (map_values (updateFirst P f m))"
      with Cons.IH f Cons.prems(1) e show ?thesis by (simp add: map_values_def)
    qed
  qed
qed (simp add: map_values_def)

lemma book_table_assigned:
  assumes "Emit sid (TableAssigned tid pos) \<in> set (snd (book_table sid roomId n rooms))"
  shows "\<exists>room t. map_get rooms roomId = Some room \<and>
      List.find (\<lambda>table. \<not> rt_isOccupied table \<and> rt_capacity table \<ge> n)
        (map_values (r_tables room)) = Some t \<and> rt_id t = tid \<and>
      fst (book_table sid roomId n rooms) =
        map_set roomId
          (room\<lparr>r_tables :=
             updateFirst (\<lambda>table. \<not> rt_isOccupied table \<and> rt_capacity table \<ge> n)
               (\<lambda>table. table\<lparr>rt_isOccupied := True, rt_reservedBy := Some sid\<rparr>)
               (r_tables room)\<rparr>) rooms"
  using assms by (auto simp: book_table_def split: option.splits if_splits)

lemma book_table_never_twice:
  assumes "reachable rooms"
    and "Emit sid (TableAssigned tid pos) \<in> set (snd (book_table sid roomId n rooms))"
  shows "Emit sid' (TableAssigned tid pos') \<notin>
           set (snd (book_table sid' roomId n' (fst (book_table sid roomId n rooms))))"
proof
  let ?P = "\<lambda>table. \<not> rt_isOccupied table \<and> rt_capacity table \<ge> n"
  let ?f = "\<lambda>table. table\<lparr>rt_isOccupied := True, rt_reservedBy := Some sid\<rparr>"
  assume second: "Emit sid' (TableAssigned tid pos') \<in>
           set (snd (book_table sid' roomId n' (fst (book_table sid roomId n rooms))))"
  from book_table_assigned [OF assms(2)] obtain room t where
    room: "map_get rooms roomId = Some room" and
    t: "List.find ?P (map_values (r_tables room)) = Some t" "rt_id t = tid" and
    st: "fst (book_table sid roomId n rooms) =
        map_set roomId (room\<lparr>r_tables := updateFirst ?P ?f (r_tables room)\<rparr>) rooms"
    by blast
  from book_table_assigned [OF second] obtain room' t' where
    room': "map_get (fst (book_table sid roomId n rooms)) roomId = Some room'" and
    t': "List.find (\<lambda>table. \<not> rt_isOccupied table \<and> rt_capacity table \<ge> n')
           (map_values (r_tables room')) = Some t'" "rt_id t' = tid"
    by blast
  from room' st have r': "r_tables room' = updateFirst ?P ?f (r_tables room)"
    by (auto simp: map_get_map_set)
  from t'(1) have free: "\<not> rt_isOccupied t'" and mem: "t' \<in> set (map_values (r_tables room'))"
    by (auto simp: find_Some_iff)
  have ids: "map rt_id (map_values (r_tables room)) = [1, 2, 3, 4, 5, 6]"
    using reachable_tables_ok [OF assms(1)] room by (rule tables_ok_get)
  then have dist: "distinct (map rt_id (map_values (r_tables room)))" by simp
  have "rt_id t' \<noteq> rt_id t"
    using dist t(1) _ _ mem [unfolded r'] free by (rule updateFirst_occupies) simp_all
  with t(2) t'(2) show False by simp
qed

text \<open>
  C2. \<open>reserveTable\<close> answers true exactly when the table exists and is free. Then the
  table is occupied, carries the reserving party and the time of the call, and every other
  table is as before. When it answers false the database is unchanged. Whatever the first
  request did, a second request for the same table finds it occupied (or absent), answers
  false and changes nothing: one table is never given to two parties. The relay handler
  searches and reserves in one step, and there as well a table that \<open>book-table\<close> has
  assigned is not assigned again by a later \<open>book-table\<close> in the same room.
\<close>

theorem reserveTable_exclusive:
  "(snd (reserveTable db tableId who now) \<longleftrightarrow>
      (\<exists>table. map_get (tables db) tableId = Some table \<and> \<not> t_isOccupied table))
   \<and> (\<forall>table. map_get (tables db) tableId = Some table \<and> \<not> t_isOccupied table \<longrightarrow>
         map_get (tables (fst (reserveTable db tableId who now))) tableId =
           Some (table\<lparr>t_isOccupied := True, t_reservedBy := Some who, t_reservedAt := Some now\<rparr>)
         \<and> (\<forall>other. other \<noteq> tableId \<longrightarrow>
               map_get (tables (fst (reserveTable db tableId who now))) other =
               map_get (tables db) other))
   \<and> (\<not> snd (reserveTable db tableId who now) \<longrightarrow> fst (reserveTable db tableId who now) = db)
   \<and> reserveTable (fst (reserveTable db tableId who now)) tableId who' now' =
         (fst (reserveTable db tableId who now), False)
   \<and> (reachable rooms \<and>
        Emit sid (TableAssigned tid pos) \<in> set (snd (book_table sid roomId n rooms)) \<longrightarrow>
        Emit sid' (TableAssigned tid pos') \<notin>
          set (snd (book_table sid' roomId n' (fst (book_table sid roomId n rooms)))))"
proof -
  have "reachable rooms \<and>
        Emit sid (TableAssigned tid pos) \<in> set (snd (book_table sid roomId n rooms)) \<longrightarrow>
        Emit sid' (TableAssigned tid pos') \<notin>
          set (snd (book_table sid' roomId n' (fst (book_table sid roomId n rooms))))"
    using book_table_never_twice [of rooms sid tid pos roomId n sid' pos' n'] by blast
  then show ?thesis
    by (auto simp: reserveTable_def map_get_map_set Let_def split: option.splits)
qed

theorem reserveTable_exclusive_witness:
  "map_get (tables newGameDatabase) 3 = Some (newTable (3, -6, -1, 2))
   \<and> \<not> t_isOccupied (newTable (3, -6, -1, 2))
   \<and> snd (reserveTable newGameDatabase 3 ''visitor'' 1000)
   \<and> map_get (tables (fst (reserveTable newGameDatabase 3 ''visitor'' 1000))) 3 =
           Some ((newTable (3, -6, -1, 2))\<lparr>t_isOccupied := True, t_reservedBy := Some ''visitor'',
                   t_reservedAt := Some 1000\<rparr>)
   \<and> reserveTable (fst (reserveTable newGameDatabase 3 ''visitor'' 1000)) 3 ''chef'' 2000 =
       (fst (reserveTable newGameDatabase 3 ''visitor'' 1000), False)
   \<and> reachable room_one
   \<and> Emit ''s1'' (TableAssigned 1 (-6, -6)) \<in> set (snd (book_table ''s1'' ''r'' 2 room_one))
   \<and> Emit ''s1'' (TableAssigned 1 (-6, -6)) \<notin>
         set (snd (book_table ''s1'' ''r'' 2 (fst (book_table ''s1'' ''r'' 2 room_one))))"
proof -
  have h: "map_get (tables newGameDatabase) 3 = Some (newTable (3, -6, -1, 2))"
    by (simp add: tables_new_eval)
  have f: "\<not> t_isOccupied (newTable (3, -6, -1, 2))"
    by (simp add: newTable_def)
  have r: "reachable room_one"
    unfolding room_one_def by (intro reachable_step reachable_init)
  have b: "Emit ''s1'' (TableAssigned 1 (-6, -6)) \<in> set (snd (book_table ''s1'' ''r'' 2 room_one))"
    by (simp add: room_one_def join_room_def fresh_room Let_def map_size_def map_values_def
          book_table_def tablePositions_def newRoomTable_def)
  note t = reserveTable_exclusive [where db = newGameDatabase and tableId = 3
      and who = "''visitor''" and now = 1000 and who' = "''chef''" and now' = 2000
      and rooms = room_one and sid = "''s1''" and tid = 1 and pos = "(-6, -6)"
      and roomId = "''r''" and n = 2 and sid' = "''s1''" and pos' = "(-6, -6)" and n' = 2]
  from t r b have c: "Emit ''s1'' (TableAssigned 1 (-6, -6)) \<notin>
         set (snd (book_table ''s1'' ''r'' 2 (fst (book_table ''s1'' ''r'' 2 room_one))))"
    by (elim conjE) simp
  from t h f have d: "snd (reserveTable newGameDatabase 3 ''visitor'' 1000)
     \<and> map_get (tables (fst (reserveTable newGameDatabase 3 ''visitor'' 1000))) 3 =
           Some ((newTable (3, -6, -1, 2))\<lparr>t_isOccupied := True, t_reservedBy := Some ''visitor'',
                   t_reservedAt := Some 1000\<rparr>)
     \<and> reserveTable (fst (reserveTable newGameDatabase 3 ''visitor'' 1000)) 3 ''chef'' 2000 =
       (fst (reserveTable newGameDatabase 3 ''visitor'' 1000), False)"
    by (elim conjE) simp
  from h f d r b c show ?thesis by (intro conjI) (elim conjE, assumption)+
qed

end
